theory Spec2Isabelle
  imports Main "HOL-Library.AList" "HOL-Library.Multiset"
begin

section \<open>Go strings, as the program uses them\<close>

text \<open>
  A Go string is a sequence of bytes, here a \<^typ>\<open>string\<close>. The functions below are the ones
  of package \<^verbatim>\<open>strings\<close> that the program calls. White space is what
  \<^verbatim>\<open>unicode.IsSpace\<close> accepts: the six ASCII characters and the UTF-8 encodings of
  U+0085, U+00A0, U+1680, U+2000..U+200A, U+2028, U+2029, U+202F, U+205F and U+3000.
\<close>

definition HasPrefix :: "string \<Rightarrow> string \<Rightarrow> bool" where
  "HasPrefix s p = (take (length p) s = p)"

definition HasSuffix :: "string \<Rightarrow> string \<Rightarrow> bool" where
  "HasSuffix s p = (length p \<le> length s \<and> drop (length s - length p) s = p)"

definition TrimPrefix :: "string \<Rightarrow> string \<Rightarrow> string" where
  "TrimPrefix s p = (if HasPrefix s p then drop (length p) s else s)"

definition TrimSuffix :: "string \<Rightarrow> string \<Rightarrow> string" where
  "TrimSuffix s p = (if HasSuffix s p then take (length s - length p) s else s)"

fun Contains :: "string \<Rightarrow> string \<Rightarrow> bool" where
  "Contains [] sub = (sub = [])"
| "Contains (c # cs) sub = (HasPrefix (c # cs) sub \<or> Contains cs sub)"

definition spaceSeqs :: "string list" where
  "spaceSeqs =
     map (\<lambda>c. [c]) [CHR 0x09, CHR 0x0A, CHR 0x0B, CHR 0x0C, CHR 0x0D, CHR 0x20] @
     [[CHR 0xC2, CHR 0x85], [CHR 0xC2, CHR 0xA0], [CHR 0xE1, CHR 0x9A, CHR 0x80]] @
     map (\<lambda>c. [CHR 0xE2, CHR 0x80, c])
       [CHR 0x80, CHR 0x81, CHR 0x82, CHR 0x83, CHR 0x84, CHR 0x85, CHR 0x86, CHR 0x87,
        CHR 0x88, CHR 0x89, CHR 0x8A, CHR 0xA8, CHR 0xA9, CHR 0xAF] @
     [[CHR 0xE2, CHR 0x81, CHR 0x9F], [CHR 0xE3, CHR 0x80, CHR 0x80]]"

definition spaceAtStart :: "string \<Rightarrow> nat" where
  "spaceAtStart s = (case List.find (HasPrefix s) spaceSeqs of Some q \<Rightarrow> length q | None \<Rightarrow> 0)"

definition spaceAtEnd :: "string \<Rightarrow> nat" where
  "spaceAtEnd s = (case List.find (HasSuffix s) spaceSeqs of Some q \<Rightarrow> length q | None \<Rightarrow> 0)"

lemma spaceSeqs_nonempty: "q \<in> set spaceSeqs \<Longrightarrow> q \<noteq> []"
  unfolding spaceSeqs_def by (simp only: set_append set_map set_simps) blast

lemma HasPrefix_length: "HasPrefix s q \<Longrightarrow> length q \<le> length s"
proof -
  assume "HasPrefix s q"
  then have "length (take (length q) s) = length q" by (simp add: HasPrefix_def)
  then show ?thesis by simp
qed

lemma find_spaceSeqs: "List.find P spaceSeqs = Some q \<Longrightarrow> P q \<and> q \<noteq> []"
proof -
  assume a: "List.find P spaceSeqs = Some q"
  then obtain i where "i < length spaceSeqs" and "P (spaceSeqs ! i)" and "q = spaceSeqs ! i"
    unfolding find_Some_iff by blast
  then show ?thesis using spaceSeqs_nonempty [of q] by simp
qed

lemma spaceAtStart_drop: "0 < spaceAtStart s \<Longrightarrow> length s - spaceAtStart s < length s"
proof (cases "List.find (HasPrefix s) spaceSeqs")
  case None
  then show "0 < spaceAtStart s \<Longrightarrow> ?thesis" by (simp add: spaceAtStart_def)
next
  case (Some q)
  then have "HasPrefix s q" and "q \<noteq> []" using find_spaceSeqs by blast+
  then have "0 < length q" and "length q \<le> length s" using HasPrefix_length by simp_all
  then have "length s - length q < length s" by linarith
  then show ?thesis using Some by (simp add: spaceAtStart_def)
qed

lemma spaceAtEnd_take: "0 < spaceAtEnd s \<Longrightarrow> length s - spaceAtEnd s < length s"
proof (cases "List.find (HasSuffix s) spaceSeqs")
  case None
  then show "0 < spaceAtEnd s \<Longrightarrow> ?thesis" by (simp add: spaceAtEnd_def)
next
  case (Some q)
  then have "HasSuffix s q" and "q \<noteq> []" using find_spaceSeqs by blast+
  then have "0 < length q" and "length q \<le> length s" by (simp_all add: HasSuffix_def)
  then have "length s - length q < length s" by linarith
  then show ?thesis using Some by (simp add: spaceAtEnd_def)
qed

function TrimLeftSpace :: "string \<Rightarrow> string" where
  "TrimLeftSpace s =
     (if spaceAtStart s = 0 then s else TrimLeftSpace (drop (spaceAtStart s) s))"
  by pat_completeness auto
termination
  by (relation "measure length") (simp_all add: spaceAtStart_drop)

function TrimRightSpace :: "string \<Rightarrow> string" where
  "TrimRightSpace s =
     (if spaceAtEnd s = 0 then s else TrimRightSpace (take (length s - spaceAtEnd s) s))"
  by pat_completeness auto
termination
  by (relation "measure length") (simp_all add: spaceAtEnd_take)

definition TrimSpace :: "string \<Rightarrow> string" where
  "TrimSpace s = TrimRightSpace (TrimLeftSpace s)"

function FieldsFrom :: "string \<Rightarrow> string \<Rightarrow> string list" where
  "FieldsFrom cur s =
     (if s = [] then (if cur = [] then [] else [cur])
      else if spaceAtStart s = 0 then FieldsFrom (cur @ [hd s]) (tl s)
      else (if cur = [] then [] else [cur]) @ FieldsFrom [] (drop (spaceAtStart s) s))"
  by pat_completeness auto
termination
  by (relation "measure (\<lambda>(cur, s). length s)") (simp_all add: spaceAtStart_drop)

definition Fields :: "string \<Rightarrow> string list" where
  "Fields s = FieldsFrom [] s"

fun SplitFrom :: "char \<Rightarrow> string \<Rightarrow> string \<Rightarrow> string list" where
  "SplitFrom sep cur [] = [cur]"
| "SplitFrom sep cur (c # cs) =
     (if c = sep then cur # SplitFrom sep [] cs else SplitFrom sep (cur @ [c]) cs)"

definition Split :: "string \<Rightarrow> char \<Rightarrow> string list" where
  \<comment> \<open>\<^verbatim>\<open>strings.Split(s, sep)\<close> for a separator of one character, the only kind the program uses\<close>
  "Split s sep = SplitFrom sep [] s"

fun Join :: "string list \<Rightarrow> string \<Rightarrow> string" where
  "Join [] sep = []"
| "Join [x] sep = x"
| "Join (x # y # ys) sep = x @ sep @ Join (y # ys) sep"

definition Trim :: "string \<Rightarrow> string \<Rightarrow> string" where
  \<comment> \<open>\<^verbatim>\<open>strings.Trim(s, cutset)\<close> for a cutset of ASCII characters\<close>
  "Trim s cutset =
     rev (dropWhile (\<lambda>c. c \<in> set cutset) (rev (dropWhile (\<lambda>c. c \<in> set cutset) s)))"

definition filepath_Join :: "string \<Rightarrow> string \<Rightarrow> string" where
  \<comment> \<open>\<^verbatim>\<open>filepath.Join\<close> of two clean elements; an empty element is ignored\<close>
  "filepath_Join dir name =
     (if dir = [] then name else if name = [] then dir else dir @ ''/'' @ name)"

section \<open>The declared model (internal/config/models.go)\<close>

type_synonym PlatformType = string
type_synonym KeyType = string
type_synonym KeyStatus = string
type_synonym Time = int

definition PlatformGitHub :: PlatformType where "PlatformGitHub = ''github''"
definition PlatformGitLab :: PlatformType where "PlatformGitLab = ''gitlab''"
definition KeyTypeED25519 :: KeyType where "KeyTypeED25519 = ''ed25519''"
definition KeyTypeRSA :: KeyType where "KeyTypeRSA = ''rsa''"
definition KeyStatusActive :: KeyStatus where "KeyStatusActive = ''active''"
definition KeyStatusExpired :: KeyStatus where "KeyStatusExpired = ''expired''"
definition KeyStatusRevoked :: KeyStatus where "KeyStatusRevoked = ''revoked''"
definition KeyStatusPending :: KeyStatus where "KeyStatusPending = ''pending''"

record KeyConfig =
  Key_Type :: KeyType
  CreatedAt :: Time
  ExpiresAt :: Time
  Fingerprint :: string
  LocalPath :: string
  RemoteID :: string
  Status :: KeyStatus

record Platform =
  Type :: PlatformType
  Account :: string
  BaseURL :: string
  Keys :: "KeyConfig list"

record Persona =
  Name :: string
  Email :: string
  Platforms :: "Platform list"

record Machine =
  ID :: string
  Machine_Name :: string
  OS :: string
  OSVersion :: string

record Defaults =
  KeyType :: KeyType
  KeyExpiration :: int
  AutoRotate :: bool
  SSHConfigPath :: string

record Config =
  Version :: string
  Machine :: Machine
  Personas :: "Persona list"
  Defaults :: Defaults

datatype error =
  VersionRequired
| MachineIDRequired
| PersonaRequired
| PersonaNameRequired nat
| PersonaEmailRequired nat
| PlatformRequired nat
| ConfigNotFound string
| LoadFailed
| SaveFailed
| NoSelection
| KeyNotFound string
| RevokeFailed error
| UnsupportedPlatform string
| NoAPIToken
| DeleteFromPlatformFailed
| UploadFailed error
| UploadKeyFailed
| PlatformInfoFailed
| GenerateFailed error
| UnsupportedKeyType string
| MkdirFailed
| KeygenFailed
| ChmodFailed
| FingerprintFailed error
| KeygenListFailed
| UnexpectedFormat
| PublicKeyFailed error
| ReadFailed
| WriteFailed
| CreateFailed
| RemoveFailed
| SSHConfigFailed error
| RotationsFailed nat
| ReadDirFailed
| ValidationFailed
| ArchiveFailed
| NilDereference

fun ValidatePersonas :: "nat \<Rightarrow> Persona list \<Rightarrow> error option" where
  "ValidatePersonas i [] = None"
| "ValidatePersonas i (persona # rest) =
     (if Name persona = [] then Some (PersonaNameRequired i)
      else if Email persona = [] then Some (PersonaEmailRequired i)
      else if length (Platforms persona) = 0 then Some (PlatformRequired i)
      else ValidatePersonas (Suc i) rest)"

definition Validate :: "Config \<Rightarrow> error option" where
  "Validate c =
     (if Version c = [] then Some VersionRequired
      else if ID (Machine c) = [] then Some MachineIDRequired
      else if length (Personas c) = 0 then Some PersonaRequired
      else ValidatePersonas 0 (Personas c))"

text \<open>
  \<^verbatim>\<open>GetActiveKey\<close> returns \<^verbatim>\<open>&p.Keys[i]\<close> for the first index whose status
  is active, and nil when the loop ends. The pointer is modelled by the index.
\<close>

fun firstActive :: "nat \<Rightarrow> KeyConfig list \<Rightarrow> nat option" where
  "firstActive i [] = None"
| "firstActive i (k # ks) =
     (if Status k = KeyStatusActive then Some i else firstActive (Suc i) ks)"

definition GetActiveKey :: "Platform \<Rightarrow> nat option" where
  "GetActiveKey p = firstActive 0 (Keys p)"

section \<open>The scan snapshot (internal/commands/scan.go)\<close>

record DiscoveredKey =
  Path :: string
  dk_Type :: string
  Bits :: int
  dk_Fingerprint :: string
  Comment :: string
  Created :: Time
  UsedBy :: "string list"
  InAgent :: bool
  OnGitHub :: bool
  OnGitLab :: bool

record SSHConfigHost =
  Host :: string
  HostName :: string
  IdentityFile :: string
  User :: string

record DiscoveredPlatform =
  dp_Type :: string
  dp_BaseURL :: string
  RepoCount :: int
  Groups :: "string list"

record GitInclude =
  inc_Path :: string
  Condition :: string
  inc_Name :: string
  inc_Email :: string
  DiscoveredPlatforms :: "DiscoveredPlatform list"

record GitConfig =
  GlobalName :: string
  GlobalEmail :: string
  Includes :: "GitInclude list"

record ScanResult =
  scan_Keys :: "DiscoveredKey list"
  SSHConfigHosts :: "SSHConfigHost list"
  GitConfig :: GitConfig

section \<open>The recommendation engine (analyzeAndRecommend)\<close>

record RecommendedPlatform =
  rec_Type :: PlatformType
  rec_Account :: string
  rec_BaseURL :: string
  KeyPath :: string

record RecommendedPersona =
  rec_Name :: string
  rec_Email :: string
  rec_Platforms :: "RecommendedPlatform list"

record RecommendedMap =
  rec_Personas :: "RecommendedPersona list"

text \<open>
  The branch for a declared configuration: two nested loops that append one entry per
  persona and per platform.
\<close>

definition recommendDeclared :: "Config \<Rightarrow> RecommendedMap" where
  "recommendDeclared existingConfig =
     \<lparr>rec_Personas =
        foldl (\<lambda>personas persona.
          personas @
          [\<lparr>rec_Name = Name persona, rec_Email = Email persona,
            rec_Platforms =
              foldl (\<lambda>platforms platform.
                let recPlatform =
                      \<lparr>rec_Type = Type platform, rec_Account = Account platform,
                       rec_BaseURL = BaseURL platform, KeyPath = []\<rparr>
                in platforms @
                   [case GetActiveKey platform of
                      Some i \<Rightarrow> recPlatform\<lparr>KeyPath := LocalPath (Keys platform ! i)\<rparr>
                    | None \<Rightarrow> recPlatform])
                [] (Platforms persona)\<rparr>])
          [] (Personas existingConfig)\<rparr>"

text \<open>
  The inference branch keeps \<^verbatim>\<open>emailMap\<close>, a Go map from email to a pointer to a
  persona. It is an association list with distinct keys; every pointer is stored under
  one key only, so the pointer a loop holds is the key. Go leaves the order of a
  \<^verbatim>\<open>range\<close> over a map open: \<open>pick i\<close> chooses the entry the range of the
  \<open>i\<close>-th routing entry meets first, and \<open>order\<close> the order of the final conversion
  to a slice.
\<close>

type_synonym emailMap = "(string \<times> RecommendedPersona) list"

fun rangeOrder :: "nat list \<Rightarrow> 'a list \<Rightarrow> 'a list" where
  "rangeOrder [] xs = xs"
| "rangeOrder (c # cs) xs =
     (if xs = [] then []
      else xs ! (c mod length xs) #
           rangeOrder cs (take (c mod length xs) xs @ drop (Suc (c mod length xs)) xs))"

definition inferPersonaName :: "GitInclude \<Rightarrow> string" where
  "inferPersonaName include =
     (if inc_Name include \<noteq> [] then inc_Name include
      else if Contains (Condition include) ''work'' then ''work''
      else if Contains (Condition include) ''personal'' then ''personal''
      else (let parts = Split (Trim (Condition include) ''~/'') (CHR ''/'')
            in if length parts > 0 then last parts else inc_Name include))"

definition addInclude :: "emailMap \<Rightarrow> GitInclude \<Rightarrow> emailMap" where
  "addInclude m include =
     (if inc_Email include = [] then m
      else if map_of m (inc_Email include) \<noteq> None then m
      else AList.update (inc_Email include)
             \<lparr>rec_Name = inferPersonaName include, rec_Email = inc_Email include,
              rec_Platforms =
                foldl (\<lambda>platforms discovered.
                  platforms @
                  [\<lparr>rec_Type = dp_Type discovered, rec_Account = [],
                    rec_BaseURL = dp_BaseURL discovered, KeyPath = []\<rparr>])
                  [] (DiscoveredPlatforms include)\<rparr> m)"

definition targetPersona :: "nat \<Rightarrow> string \<Rightarrow> emailMap \<Rightarrow> string option" where
  "targetPersona choice globalEmail m =
     (if globalEmail \<noteq> [] then (if map_of m globalEmail = None then None else Some globalEmail)
      else if m = [] then None
      else Some (fst (m ! (choice mod length m))))"

definition addHost :: "nat \<Rightarrow> string \<Rightarrow> emailMap \<Rightarrow> SSHConfigHost \<Rightarrow> emailMap" where
  "addHost choice globalEmail m host =
     (if HostName host = ''github.com'' \<or> HostName host = ''gitlab.com'' then
        (let platformType =
               (if Contains (HostName host) ''gitlab'' then PlatformGitLab else PlatformGitHub);
             account = ''username''
         in case targetPersona choice globalEmail m of
              None \<Rightarrow> m
            | Some email \<Rightarrow>
                AList.map_entry email
                  (\<lambda>p. p\<lparr>rec_Platforms := rec_Platforms p @
                       [\<lparr>rec_Type = platformType, rec_Account = account, rec_BaseURL = [],
                         KeyPath = IdentityFile host\<rparr>]\<rparr>) m)
      else m)"

fun addHosts :: "(nat \<Rightarrow> nat) \<Rightarrow> string \<Rightarrow> nat \<Rightarrow> emailMap \<Rightarrow> SSHConfigHost list \<Rightarrow> emailMap" where
  "addHosts pick globalEmail i m [] = m"
| "addHosts pick globalEmail i m (host # hosts) =
     addHosts pick globalEmail (Suc i) (addHost (pick i) globalEmail m host) hosts"

definition seedGlobal :: "ScanResult \<Rightarrow> emailMap" where
  "seedGlobal scanResult =
     (if GlobalEmail (GitConfig scanResult) \<noteq> [] then
        AList.update (GlobalEmail (GitConfig scanResult))
          \<lparr>rec_Name = ''personal'', rec_Email = GlobalEmail (GitConfig scanResult),
           rec_Platforms = []\<rparr> []
      else [])"

definition recommendInferred :: "(nat \<Rightarrow> nat) \<Rightarrow> nat list \<Rightarrow> ScanResult \<Rightarrow> RecommendedMap" where
  "recommendInferred pick order scanResult =
     (let m1 = seedGlobal scanResult;
          m2 = foldl addInclude m1 (Includes (GitConfig scanResult));
          m3 = addHosts pick (GlobalEmail (GitConfig scanResult)) 0 m2 (SSHConfigHosts scanResult)
      in \<lparr>rec_Personas = foldl (\<lambda>personas persona. personas @ [persona]) []
                           (rangeOrder order (map snd m3))\<rparr>)"

definition analyzeAndRecommend ::
  "(nat \<Rightarrow> nat) \<Rightarrow> nat list \<Rightarrow> ScanResult \<Rightarrow> Config option \<Rightarrow> RecommendedMap" where
  "analyzeAndRecommend pick order scanResult existingConfig =
     (case existingConfig of
        Some cfg \<Rightarrow> recommendDeclared cfg
      | None \<Rightarrow> recommendInferred pick order scanResult)"

section \<open>The machine the commands run on\<close>

text \<open>
  The commands read and write files, start other programs, call the platforms over the
  network and read the clock. A \<open>World\<close> is what they can change: the regular files (path
  to content), the number of calls made to the outside so far, and the trace of the calls
  that reach a platform or persist the declared model. An \<open>Env\<close> is what they cannot
  change: the process environment, the command line, the line typed at the prompt, and
  the answers of the outside. An answer may depend on the moment of the call, which is
  the tick of the world; every call to the outside advances the tick by one.
\<close>

datatype fserror = NotExist | Denied

datatype fscall = Stat | ReadFile | WriteFile | OpenFile | Remove | Rename | Chmod | MkdirAll

datatype client = GitHubClient string | GitLabClient string string

datatype event =
  Saved string Config
| AddKeyCall client string string
| DeleteKeyCall client string

record World =
  files :: "string \<rightharpoonup> string"
  tick :: nat
  trace :: "event list"

record Env =
  HOME :: string
  UserHomeDir :: "string option"
  GOOS :: string
  cfgFile :: string
  args :: "string list"
  response :: string
  revokeAll :: bool
  revokeLocal :: bool
  revokeFingerprint :: string
  revokePersona :: string
  revokePlatform :: string
  rotateAll :: bool
  rotatePersona :: string
  rotateDryRun :: bool
  applyYes :: bool
  refused :: "nat \<Rightarrow> fscall \<Rightarrow> string \<Rightarrow> bool"
  command :: "nat \<Rightarrow> string list \<Rightarrow> bool \<times> string"
  keypair :: "nat \<Rightarrow> string \<times> string"
  now :: "nat \<Rightarrow> Time"
  AddDate :: "Time \<Rightarrow> int \<Rightarrow> Time"
  FormatDate :: "Time \<Rightarrow> string"
  expirationMonths :: "int \<Rightarrow> int"
  Marshal :: "Config \<Rightarrow> string option"
  Unmarshal :: "string \<Rightarrow> Config option"
  client_AddKey :: "nat \<Rightarrow> client \<Rightarrow> string \<Rightarrow> string \<Rightarrow> string option"
  client_DeleteKey :: "nat \<Rightarrow> client \<Rightarrow> string \<Rightarrow> bool"
  extraOrder :: "nat \<Rightarrow> nat list"

text \<open>
  \<open>refused env t c path\<close>: the file system refuses call \<open>c\<close> on \<open>path\<close> at tick \<open>t\<close>
  (permissions, a full disk, a missing parent directory). \<open>command env t argv\<close>: whether
  the program started at tick \<open>t\<close> exits with status 0, and what it prints.
  \<open>keypair env t\<close>: the private and the public key file that \<^verbatim>\<open>ssh-keygen\<close> writes at
  tick \<open>t\<close>. \<open>AddDate env t m\<close> is \<^verbatim>\<open>t.AddDate(0, m, 0)\<close>, \<open>FormatDate env t\<close> is
  \<^verbatim>\<open>t.Format("2006-01-02")\<close>, and \<open>expirationMonths env d\<close> is
  \<^verbatim>\<open>int(d.Hours() / 24 / 30)\<close>, which the program computes in floating point.
  \<open>extraOrder env i\<close> is the order in which the \<^verbatim>\<open>Extra\<close> map of the \<open>i\<close>-th entry of a
  managed block is traversed.
\<close>

definition step :: "World \<Rightarrow> World" where
  "step w = w\<lparr>tick := Suc (tick w)\<rparr>"

definition os_Stat :: "Env \<Rightarrow> World \<Rightarrow> string \<Rightarrow> fserror option \<times> World" where
  "os_Stat env w path =
     (if refused env (tick w) Stat path then (Some Denied, step w)
      else if files w path = None then (Some NotExist, step w)
      else (None, step w))"

definition os_ReadFile :: "Env \<Rightarrow> World \<Rightarrow> string \<Rightarrow> (fserror + string) \<times> World" where
  "os_ReadFile env w path =
     (if refused env (tick w) ReadFile path then (Inl Denied, step w)
      else case files w path of
             None \<Rightarrow> (Inl NotExist, step w)
           | Some data \<Rightarrow> (Inr data, step w))"

definition os_WriteFile :: "Env \<Rightarrow> World \<Rightarrow> string \<Rightarrow> string \<Rightarrow> fserror option \<times> World" where
  "os_WriteFile env w path data =
     (if refused env (tick w) WriteFile path then (Some Denied, step w)
      else (None, step (w\<lparr>files := (files w)(path \<mapsto> data)\<rparr>)))"

definition os_OpenFile_create :: "Env \<Rightarrow> World \<Rightarrow> string \<Rightarrow> fserror option \<times> World" where
  \<comment> \<open>\<^verbatim>\<open>os.OpenFile(path, os.O_CREATE|os.O_WRONLY, 0600)\<close> followed by \<^verbatim>\<open>Close\<close>\<close>
  "os_OpenFile_create env w path =
     (if refused env (tick w) OpenFile path then (Some Denied, step w)
      else if files w path = None then (None, step (w\<lparr>files := (files w)(path \<mapsto> [])\<rparr>))
      else (None, step w))"

definition os_Remove :: "Env \<Rightarrow> World \<Rightarrow> string \<Rightarrow> fserror option \<times> World" where
  "os_Remove env w path =
     (if refused env (tick w) Remove path then (Some Denied, step w)
      else if files w path = None then (Some NotExist, step w)
      else (None, step (w\<lparr>files := (files w)(path := None)\<rparr>)))"

definition os_Rename :: "Env \<Rightarrow> World \<Rightarrow> string \<Rightarrow> string \<Rightarrow> fserror option \<times> World" where
  "os_Rename env w old new =
     (if refused env (tick w) Rename old then (Some Denied, step w)
      else case files w old of
             None \<Rightarrow> (Some NotExist, step w)
           | Some data \<Rightarrow>
               (None, step (w\<lparr>files := ((files w)(old := None))(new \<mapsto> data)\<rparr>)))"

definition os_Chmod :: "Env \<Rightarrow> World \<Rightarrow> string \<Rightarrow> fserror option \<times> World" where
  "os_Chmod env w path =
     (if refused env (tick w) Chmod path then (Some Denied, step w)
      else if files w path = None then (Some NotExist, step w)
      else (None, step w))"

definition os_MkdirAll :: "Env \<Rightarrow> World \<Rightarrow> string \<Rightarrow> fserror option \<times> World" where
  \<comment> \<open>directories are not part of the world: the call succeeds unless it is refused\<close>
  "os_MkdirAll env w path =
     (if refused env (tick w) MkdirAll path then (Some Denied, step w) else (None, step w))"

definition exec_Command :: "Env \<Rightarrow> World \<Rightarrow> string list \<Rightarrow> (bool \<times> string) \<times> World" where
  "exec_Command env w argv = (command env (tick w) argv, step w)"

definition time_Now :: "Env \<Rightarrow> World \<Rightarrow> Time \<times> World" where
  "time_Now env w = (now env (tick w), step w)"

definition filepath_Dir :: "string \<Rightarrow> string" where
  \<comment> \<open>\<^verbatim>\<open>filepath.Dir\<close> of a clean path\<close>
  "filepath_Dir path =
     (let d = rev (drop 1 (dropWhile (\<lambda>c. c \<noteq> CHR ''/'') (rev path)))
      in if CHR ''/'' \<notin> set path then ''.'' else if d = [] then ''/'' else d)"

definition filepath_Base :: "string \<Rightarrow> string" where
  \<comment> \<open>\<^verbatim>\<open>filepath.Base\<close> of a clean path that is not empty and not the root\<close>
  "filepath_Base path = rev (takeWhile (\<lambda>c. c \<noteq> CHR ''/'') (rev path))"

fun ToLower :: "string \<Rightarrow> string" where
  \<comment> \<open>\<^verbatim>\<open>strings.ToLower\<close>, on ASCII letters; other bytes are kept\<close>
  "ToLower [] = []"
| "ToLower (c # cs) =
     (if 65 \<le> (of_char c :: nat) \<and> (of_char c :: nat) \<le> 90
      then char_of ((of_char c :: nat) + 32) else c)
       # ToLower cs"

section \<open>The routing file manager (package sshconfig)\<close>

text \<open>
  A \<^verbatim>\<open>Manager\<close> holds the path of the routing file only; it is modelled by that path.
  The \<^verbatim>\<open>Extra\<close> map of an entry is the list of its pairs, with distinct keys.
\<close>

definition managedBlockStart :: string where
  "managedBlockStart = ''# BEGIN git-keys managed block -''"

definition managedBlockEnd :: string where
  "managedBlockEnd = ''# END git-keys managed block''"

record Entry =
  e_Host :: string
  e_HostName :: string
  e_User :: string
  e_IdentityFile :: string
  Extra :: "(string \<times> string) list"

definition sshconfig_NewManager :: "Env \<Rightarrow> string \<Rightarrow> string" where
  "sshconfig_NewManager env configPath =
     (if configPath = [] then
        filepath_Join
          (filepath_Join (case UserHomeDir env of Some home \<Rightarrow> home | None \<Rightarrow> []) ''.ssh'')
          ''config''
      else configPath)"

definition EnsureConfigExists :: "Env \<Rightarrow> World \<Rightarrow> string \<Rightarrow> error option \<times> World" where
  "EnsureConfigExists env w configPath =
     (case os_MkdirAll env w (filepath_Dir configPath) of
        (Some e, w1) \<Rightarrow> (Some MkdirFailed, w1)
      | (None, w1) \<Rightarrow>
          (case os_Stat env w1 configPath of
             (Some NotExist, w2) \<Rightarrow>
               (case os_OpenFile_create env w2 configPath of
                  (Some e, w3) \<Rightarrow> (Some CreateFailed, w3)
                | (None, w3) \<Rightarrow> (None, w3))
           | (Some Denied, w2) \<Rightarrow> (None, w2)
           | (None, w2) \<Rightarrow> (None, w2)))"

definition GetManagedBlockID :: "string \<Rightarrow> PlatformType \<Rightarrow> string \<Rightarrow> string" where
  "GetManagedBlockID persona platform account = persona @ ''-'' @ platform @ ''-'' @ account"

fun removeLines :: "string \<Rightarrow> bool \<Rightarrow> string list \<Rightarrow> string list" where
  "removeLines startMarker inBlock [] = []"
| "removeLines startMarker inBlock (line # lines) =
     (let trimmed = TrimSpace line
      in if HasPrefix trimmed startMarker then removeLines startMarker True lines
         else if inBlock \<and> HasPrefix trimmed managedBlockEnd then
           removeLines startMarker False lines
         else if \<not> inBlock then line # removeLines startMarker inBlock lines
         else removeLines startMarker inBlock lines)"

definition removeManagedBlock :: "string list \<Rightarrow> string \<Rightarrow> string list" where
  "removeManagedBlock lines blockID =
     removeLines (managedBlockStart @ '' '' @ blockID) False lines"

fun entryLines :: "Env \<Rightarrow> nat \<Rightarrow> Entry list \<Rightarrow> string list" where
  "entryLines env i [] = []"
| "entryLines env i (entry # entries) =
     [''Host '' @ e_Host entry] @
     (if e_HostName entry \<noteq> [] then [''  HostName '' @ e_HostName entry] else []) @
     (if e_User entry \<noteq> [] then [''  User '' @ e_User entry] else []) @
     (if e_IdentityFile entry \<noteq> [] then [''  IdentityFile '' @ e_IdentityFile entry] else []) @
     map (\<lambda>(key, v). ''  '' @ key @ '' '' @ v) (rangeOrder (extraOrder env i) (Extra entry)) @
     [[]] @
     entryLines env (Suc i) entries"

definition buildManagedBlock :: "Env \<Rightarrow> string \<Rightarrow> Entry list \<Rightarrow> string list" where
  "buildManagedBlock env blockID entries =
     [[], managedBlockStart @ '' '' @ blockID] @ entryLines env 0 entries @
     [managedBlockEnd, []]"

definition AddOrUpdateEntry ::
  "Env \<Rightarrow> World \<Rightarrow> string \<Rightarrow> string \<Rightarrow> Entry list \<Rightarrow> error option \<times> World" where
  "AddOrUpdateEntry env w configPath blockID entries =
     (case EnsureConfigExists env w configPath of
        (Some e, w1) \<Rightarrow> (Some e, w1)
      | (None, w1) \<Rightarrow>
          (case os_ReadFile env w1 configPath of
             (Inl e, w2) \<Rightarrow> (Some ReadFailed, w2)
           | (Inr content, w2) \<Rightarrow>
               (let lines = Split content (CHR 0x0A);
                    newLines = removeManagedBlock lines blockID;
                    blockLines = buildManagedBlock env blockID entries;
                    newContent = Join (newLines @ blockLines) [CHR 0x0A]
                in case os_WriteFile env w2 configPath newContent of
                     (Some e, w3) \<Rightarrow> (Some WriteFailed, w3)
                   | (None, w3) \<Rightarrow> (None, w3))))"

definition BackupConfig :: "Env \<Rightarrow> World \<Rightarrow> string \<Rightarrow> (error + string) \<times> World" where
  "BackupConfig env w configPath =
     (case os_ReadFile env w configPath of
        (Inl NotExist, w1) \<Rightarrow> (Inr [], w1)
      | (Inl Denied, w1) \<Rightarrow> (Inl ReadFailed, w1)
      | (Inr content, w1) \<Rightarrow>
          (case os_WriteFile env w1 (configPath @ ''.backup'') content of
             (Some e, w2) \<Rightarrow> (Inl WriteFailed, w2)
           | (None, w2) \<Rightarrow> (Inr (configPath @ ''.backup''), w2)))"

section \<open>Key files, the persisted model, tokens and clients\<close>

subsection \<open>The key manager (package sshkey)\<close>

text \<open>
  The manager holds the key directory only and is modelled by it. When
  \<^verbatim>\<open>ssh-keygen -f path\<close> exits with status 0 it has written \<^verbatim>\<open>path\<close> and
  \<^verbatim>\<open>path.pub\<close>; when it fails it has written nothing.
\<close>

definition sshkey_NewManager :: "Env \<Rightarrow> string \<Rightarrow> string" where
  "sshkey_NewManager env keysDir =
     (if keysDir = [] then
        filepath_Join (case UserHomeDir env of Some home \<Rightarrow> home | None \<Rightarrow> []) ''.ssh''
      else keysDir)"

definition ssh_keygen :: "Env \<Rightarrow> World \<Rightarrow> string list \<Rightarrow> string \<Rightarrow> bool \<times> World" where
  "ssh_keygen env w argv fullPath =
     (case exec_Command env w (''ssh-keygen'' # argv) of
        ((False, output), w1) \<Rightarrow> (False, w1)
      | ((True, output), w1) \<Rightarrow>
          (True, w1\<lparr>files := (files w1)(fullPath \<mapsto> fst (keypair env (tick w)),
                                         fullPath @ ''.pub'' \<mapsto> snd (keypair env (tick w)))\<rparr>))"

definition GenerateKey ::
  "Env \<Rightarrow> World \<Rightarrow> string \<Rightarrow> KeyType \<Rightarrow> string \<Rightarrow> string \<Rightarrow> error option \<times> World" where
  "GenerateKey env w keysDir keyType comment outputPath =
     (case os_MkdirAll env w keysDir of
        (Some e, w1) \<Rightarrow> (Some MkdirFailed, w1)
      | (None, w1) \<Rightarrow>
          (let fullPath = filepath_Join keysDir outputPath
           in if keyType = KeyTypeED25519 \<or> keyType = KeyTypeRSA then
                (let argv =
                       (if keyType = KeyTypeED25519 then
                          [''-t'', ''ed25519'', ''-f'', fullPath, ''-N'', [], ''-C'', comment]
                        else
                          [''-t'', ''rsa'', ''-b'', ''4096'', ''-f'', fullPath, ''-N'', [],
                           ''-C'', comment])
                 in case ssh_keygen env w1 argv fullPath of
                      (False, w2) \<Rightarrow> (Some KeygenFailed, w2)
                    | (True, w2) \<Rightarrow>
                        (case os_Chmod env w2 fullPath of
                           (Some e, w3) \<Rightarrow> (Some ChmodFailed, w3)
                         | (None, w3) \<Rightarrow> (None, w3)))
              else (Some (UnsupportedKeyType keyType), w1)))"

definition pubPath :: "string \<Rightarrow> string \<Rightarrow> string" where
  "pubPath keysDir publicKeyPath =
     (let fullPath = filepath_Join keysDir publicKeyPath
      in if \<not> HasSuffix fullPath ''.pub'' then fullPath @ ''.pub'' else fullPath)"

definition GetFingerprint :: "Env \<Rightarrow> World \<Rightarrow> string \<Rightarrow> string \<Rightarrow> (error + string) \<times> World" where
  "GetFingerprint env w keysDir publicKeyPath =
     (case exec_Command env w [''ssh-keygen'', ''-lf'', pubPath keysDir publicKeyPath] of
        ((False, output), w1) \<Rightarrow> (Inl KeygenListFailed, w1)
      | ((True, output), w1) \<Rightarrow>
          (let parts = Fields output
           in if length parts \<ge> 2 then (Inr (parts ! 1), w1) else (Inl UnexpectedFormat, w1)))"

definition GetPublicKey :: "Env \<Rightarrow> World \<Rightarrow> string \<Rightarrow> string \<Rightarrow> (error + string) \<times> World" where
  "GetPublicKey env w keysDir publicKeyPath =
     (case os_ReadFile env w (pubPath keysDir publicKeyPath) of
        (Inl e, w1) \<Rightarrow> (Inl ReadFailed, w1)
      | (Inr data, w1) \<Rightarrow> (Inr (TrimSpace data), w1))"

definition DeleteKey :: "Env \<Rightarrow> World \<Rightarrow> string \<Rightarrow> string \<Rightarrow> error option \<times> World" where
  "DeleteKey env w keysDir keyPath =
     (let privateKey = filepath_Join keysDir keyPath;
          publicKey = privateKey @ ''.pub''
      in case os_Remove env w privateKey of
           (Some Denied, w1) \<Rightarrow> (Some RemoveFailed, w1)
         | (r, w1) \<Rightarrow>
             (case os_Remove env w1 publicKey of
                (Some Denied, w2) \<Rightarrow> (Some RemoveFailed, w2)
              | (r', w2) \<Rightarrow> (None, w2)))"

definition BuildKeyComment :: "PlatformType \<Rightarrow> string \<Rightarrow> string \<Rightarrow> string" where
  "BuildKeyComment platform account machineName =
     ''git-keys:'' @ platform @ '':'' @ account @ '':'' @ machineName"

definition BuildKeyFileName :: "PlatformType \<Rightarrow> string \<Rightarrow> KeyType \<Rightarrow> string" where
  "BuildKeyFileName platform account keyType =
     ''git-keys-'' @ platform @ ''-'' @ account @ ''-'' @ keyType"

subsection \<open>The host (package platform)\<close>

definition NewPlatform :: "Env \<Rightarrow> error option" where
  "NewPlatform env = (if GOOS env \<noteq> ''darwin'' then Some (UnsupportedPlatform (GOOS env)) else None)"

definition GetMachineName :: "Env \<Rightarrow> World \<Rightarrow> string option \<times> World" where
  "GetMachineName env w =
     (case exec_Command env w [''scutil'', ''--get'', ''ComputerName''] of
        ((True, output), w1) \<Rightarrow> (Some (TrimSpace output), w1)
      | ((False, output), w1) \<Rightarrow>
          (case exec_Command env w1 [''hostname''] of
             ((True, output'), w2) \<Rightarrow> (Some (TrimSpace output'), w2)
           | ((False, output'), w2) \<Rightarrow> (None, w2)))"

subsection \<open>The persisted declared model (package config, Manager)\<close>

definition GetDefaultConfigPath :: "Env \<Rightarrow> string" where
  "GetDefaultConfigPath env =
     (case UserHomeDir env of None \<Rightarrow> [] | Some home \<Rightarrow> filepath_Join home ''.git-keys.yaml'')"

definition config_NewManager :: "Env \<Rightarrow> string \<Rightarrow> string" where
  "config_NewManager env configPath =
     (if configPath = [] then GetDefaultConfigPath env else configPath)"

definition Load :: "Env \<Rightarrow> World \<Rightarrow> string \<Rightarrow> (error + Config) \<times> World" where
  "Load env w configPath =
     (case os_ReadFile env w configPath of
        (Inl e, w1) \<Rightarrow> (Inl LoadFailed, w1)
      | (Inr data, w1) \<Rightarrow>
          (case Unmarshal env data of
             None \<Rightarrow> (Inl LoadFailed, w1)
           | Some config \<Rightarrow>
               (case Validate config of
                  Some e \<Rightarrow> (Inl e, w1)
                | None \<Rightarrow> (Inr config, w1))))"

definition Save :: "Env \<Rightarrow> World \<Rightarrow> string \<Rightarrow> Config \<Rightarrow> error option \<times> World" where
  "Save env w configPath config =
     (case Validate config of
        Some e \<Rightarrow> (Some e, w)
      | None \<Rightarrow>
          (case Marshal env config of
             None \<Rightarrow> (Some SaveFailed, w)
           | Some data \<Rightarrow>
               (case os_MkdirAll env w (filepath_Dir configPath) of
                  (Some e, w1) \<Rightarrow> (Some SaveFailed, w1)
                | (None, w1) \<Rightarrow>
                    (case os_WriteFile env w1 configPath data of
                       (Some e, w2) \<Rightarrow> (Some SaveFailed, w2)
                     | (None, w2) \<Rightarrow>
                         (None, w2\<lparr>trace := trace w2 @ [Saved configPath config]\<rparr>)))))"

definition Exists :: "Env \<Rightarrow> World \<Rightarrow> string \<Rightarrow> bool \<times> World" where
  "Exists env w configPath =
     (case os_Stat env w configPath of (err, w1) \<Rightarrow> (err = None, w1))"

subsection \<open>Tokens and platform clients (package api)\<close>

text \<open>
  A client is the token it was built with and, for GitLab, its base URL. A call of a client
  is recorded in the trace; its answer comes from the environment.
\<close>

definition GetToken :: "Env \<Rightarrow> World \<Rightarrow> string \<Rightarrow> string \<Rightarrow> string option \<times> World" where
  "GetToken env w keychainService account =
     (case exec_Command env w
             [''security'', ''find-generic-password'', ''-s'', keychainService,
              ''-a'', account, ''-w''] of
        ((False, output), w1) \<Rightarrow> (None, w1)
      | ((True, output), w1) \<Rightarrow> (Some (TrimSpace output), w1))"

definition NewGitHubClient :: "string \<Rightarrow> client" where
  "NewGitHubClient token = GitHubClient token"

definition NewGitLabClient :: "string \<Rightarrow> string \<Rightarrow> client" where
  "NewGitLabClient baseURL token =
     GitLabClient (TrimSuffix (if baseURL = [] then ''https://gitlab.com'' else baseURL) ''/'') token"

definition AddKey :: "Env \<Rightarrow> World \<Rightarrow> client \<Rightarrow> string \<Rightarrow> string \<Rightarrow> string option \<times> World" where
  "AddKey env w c title publicKey =
     (client_AddKey env (tick w) c title publicKey,
      step (w\<lparr>trace := trace w @ [AddKeyCall c title publicKey]\<rparr>))"

definition client_Delete :: "Env \<Rightarrow> World \<Rightarrow> client \<Rightarrow> string \<Rightarrow> bool \<times> World" where
  "client_Delete env w c keyID =
     (client_DeleteKey env (tick w) c keyID,
      step (w\<lparr>trace := trace w @ [DeleteKeyCall c keyID]\<rparr>))"

section \<open>The revoke command (internal/commands/status.go)\<close>

text \<open>
  A \<^verbatim>\<open>keyRevocation\<close> holds a copy of the key (\<^verbatim>\<open>Key: key\<close>, the loop variable of a
  \<^verbatim>\<open>range\<close>) and pointers to the loop variables \<^verbatim>\<open>persona\<close> and \<^verbatim>\<open>platform\<close>, which
  are copies as well. The copy of a platform shares the array of its \<^verbatim>\<open>Keys\<close> slice with the
  configuration, so a write through \<^verbatim>\<open>PlatformRef.Keys[i]\<close> is a write to the keys of that
  platform of the configuration: \<open>PlatformRef\<close> is the pair of indices of the platform, and
  \<open>PersonaRef\<close> the index of the persona. A write to \<^verbatim>\<open>Key\<close> changes the copy only.
\<close>

record keyRevocation =
  kr_Persona :: string
  kr_Platform :: PlatformType
  kr_Account :: string
  kr_BaseURL :: string
  kr_Key :: KeyConfig
  PersonaRef :: nat
  PlatformRef :: "nat \<times> nat"

text \<open>
  The token lookup that \<^verbatim>\<open>revokeKey\<close>, \<^verbatim>\<open>uploadKey\<close> and \<^verbatim>\<open>deleteKey\<close> each write out:
  the token of the account, and when that fails the token of the account
  \<^verbatim>\<open>default\<close>.
\<close>

definition lookupToken :: "Env \<Rightarrow> World \<Rightarrow> string \<Rightarrow> string \<Rightarrow> string option \<times> World" where
  "lookupToken env w tokenService account =
     (case GetToken env w tokenService account of
        (Some token, w1) \<Rightarrow> (Some token, w1)
      | (None, w1) \<Rightarrow> GetToken env w1 tokenService ''default'')"

definition revokeKey :: "Env \<Rightarrow> World \<Rightarrow> keyRevocation \<Rightarrow> error option \<times> World" where
  "revokeKey env w kr =
     (if RemoteID (kr_Key kr) = [] then (None, w)
      else if kr_Platform kr = PlatformGitHub \<or> kr_Platform kr = PlatformGitLab then
        (let tokenService =
               (if kr_Platform kr = PlatformGitHub then ''git-keys-github'' else ''git-keys-gitlab'')
         in case lookupToken env w tokenService (kr_Account kr) of
              (None, w1) \<Rightarrow> (Some NoAPIToken, w1)
            | (Some token, w1) \<Rightarrow>
                (let c = (if kr_Platform kr = PlatformGitHub then NewGitHubClient token
                          else NewGitLabClient
                                 (if kr_BaseURL kr = [] then ''https://gitlab.com''
                                  else kr_BaseURL kr) token)
                 in case client_Delete env w1 c (RemoteID (kr_Key kr)) of
                      (False, w2) \<Rightarrow> (Some DeleteFromPlatformFailed, w2)
                    | (True, w2) \<Rightarrow> (None, w2)))
      else (Some (UnsupportedPlatform (kr_Platform kr)), w))"

fun findInKeys ::
  "string \<Rightarrow> Persona \<Rightarrow> Platform \<Rightarrow> nat \<times> nat \<Rightarrow> KeyConfig list \<Rightarrow> keyRevocation option" where
  "findInKeys fingerprint persona platform ref [] = None"
| "findInKeys fingerprint persona platform ref (key # keys) =
     (if TrimPrefix (Fingerprint key) ''SHA256:'' = fingerprint then
        Some \<lparr>kr_Persona = Name persona, kr_Platform = Type platform,
              kr_Account = Account platform, kr_BaseURL = BaseURL platform, kr_Key = key,
              PersonaRef = fst ref, PlatformRef = ref\<rparr>
      else findInKeys fingerprint persona platform ref keys)"

fun findInPlatforms ::
  "string \<Rightarrow> Persona \<Rightarrow> nat \<Rightarrow> nat \<Rightarrow> Platform list \<Rightarrow> keyRevocation option" where
  "findInPlatforms fingerprint persona i j [] = None"
| "findInPlatforms fingerprint persona i j (platform # platforms) =
     (case findInKeys fingerprint persona platform (i, j) (Keys platform) of
        Some found \<Rightarrow> Some found
      | None \<Rightarrow> findInPlatforms fingerprint persona i (Suc j) platforms)"

fun findInPersonas :: "string \<Rightarrow> nat \<Rightarrow> Persona list \<Rightarrow> keyRevocation option" where
  "findInPersonas fingerprint i [] = None"
| "findInPersonas fingerprint i (persona # personas) =
     (case findInPlatforms fingerprint persona i 0 (Platforms persona) of
        Some found \<Rightarrow> Some found
      | None \<Rightarrow> findInPersonas fingerprint (Suc i) personas)"

fun markRevoked :: "string \<Rightarrow> KeyConfig list \<Rightarrow> KeyConfig list" where
  "markRevoked fingerprint [] = []"
| "markRevoked fingerprint (key # keys) =
     (if Fingerprint key = fingerprint then key\<lparr>Status := KeyStatusRevoked\<rparr> # keys
      else key # markRevoked fingerprint keys)"

definition writeKeys :: "Config \<Rightarrow> nat \<times> nat \<Rightarrow> (KeyConfig list \<Rightarrow> KeyConfig list) \<Rightarrow> Config" where
  \<comment> \<open>a write to the elements of the \<^verbatim>\<open>Keys\<close> array of platform \<open>j\<close> of persona \<open>i\<close>\<close>
  "writeKeys cfg ref f =
     (case ref of (i, j) \<Rightarrow>
        cfg\<lparr>Personas := (Personas cfg)
          [i := (Personas cfg ! i)\<lparr>Platforms := (Platforms (Personas cfg ! i))
            [j := (Platforms (Personas cfg ! i) ! j)
                    \<lparr>Keys := f (Keys (Platforms (Personas cfg ! i) ! j))\<rparr>]\<rparr>]\<rparr>)"

definition revokeByFingerprint :: "Env \<Rightarrow> World \<Rightarrow> Config \<Rightarrow> string \<Rightarrow> error option \<times> World" where
  "revokeByFingerprint env w cfg fingerprint0 =
     (let fingerprint = TrimPrefix fingerprint0 ''SHA256:''
      in case findInPersonas fingerprint 0 (Personas cfg) of
           None \<Rightarrow> (Some (KeyNotFound fingerprint), w)
         | Some found \<Rightarrow>
             if ToLower (response env) \<noteq> ''y'' then (None, w)
             else
               (case revokeKey env w found of
                  (Some e, w1) \<Rightarrow> (Some (RevokeFailed e), w1)
                | (None, w1) \<Rightarrow>
                    (let cfg' = writeKeys cfg (PlatformRef found)
                                  (markRevoked (Fingerprint (kr_Key found)))
                     in case Save env w1 (config_NewManager env (GetDefaultConfigPath env)) cfg' of
                          (Some e, w2) \<Rightarrow> (Some SaveFailed, w2)
                        | (None, w2) \<Rightarrow> (None, w2))))"

fun revocationsOfKeys :: "Persona \<Rightarrow> Platform \<Rightarrow> nat \<times> nat \<Rightarrow> KeyConfig list \<Rightarrow> keyRevocation list" where
  "revocationsOfKeys persona platform ref [] = []"
| "revocationsOfKeys persona platform ref (key # keys) =
     (if Status key = KeyStatusRevoked then revocationsOfKeys persona platform ref keys
      else \<lparr>kr_Persona = Name persona, kr_Platform = Type platform,
            kr_Account = Account platform, kr_BaseURL = BaseURL platform, kr_Key = key,
            PersonaRef = fst ref, PlatformRef = ref\<rparr>
           # revocationsOfKeys persona platform ref keys)"

fun revocationsOfPlatforms ::
  "string \<Rightarrow> Persona \<Rightarrow> nat \<Rightarrow> nat \<Rightarrow> Platform list \<Rightarrow> keyRevocation list" where
  "revocationsOfPlatforms wantedPlatform persona i j [] = []"
| "revocationsOfPlatforms wantedPlatform persona i j (platform # platforms) =
     (if wantedPlatform \<noteq> [] \<and> Type platform \<noteq> wantedPlatform then
        revocationsOfPlatforms wantedPlatform persona i (Suc j) platforms
      else revocationsOfKeys persona platform (i, j) (Keys platform) @
           revocationsOfPlatforms wantedPlatform persona i (Suc j) platforms)"

fun revocationsOfPersonas :: "string \<Rightarrow> string \<Rightarrow> nat \<Rightarrow> Persona list \<Rightarrow> keyRevocation list" where
  "revocationsOfPersonas wantedPersona wantedPlatform i [] = []"
| "revocationsOfPersonas wantedPersona wantedPlatform i (persona # personas) =
     (if wantedPersona \<noteq> [] \<and> Name persona \<noteq> wantedPersona then
        revocationsOfPersonas wantedPersona wantedPlatform (Suc i) personas
      else revocationsOfPlatforms wantedPlatform persona i 0 (Platforms persona) @
           revocationsOfPersonas wantedPersona wantedPlatform (Suc i) personas)"

fun revokeEach :: "Env \<Rightarrow> World \<Rightarrow> keyRevocation list \<Rightarrow> keyRevocation list \<times> World" where
  "revokeEach env w [] = ([], w)"
| "revokeEach env w (kr # krs) =
     (case revokeKey env w kr of
        (Some e, w1) \<Rightarrow>
          (case revokeEach env w1 krs of (krs', w2) \<Rightarrow> (kr # krs', w2))
      | (None, w1) \<Rightarrow>
          (case revokeEach env w1 krs of
             (krs', w2) \<Rightarrow> (kr\<lparr>kr_Key := (kr_Key kr)\<lparr>Status := KeyStatusRevoked\<rparr>\<rparr> # krs', w2)))"

fun deleteLocal :: "Env \<Rightarrow> World \<Rightarrow> string \<Rightarrow> keyRevocation list \<Rightarrow> World" where
  "deleteLocal env w keyMgr [] = w"
| "deleteLocal env w keyMgr (kr # krs) =
     (if LocalPath (kr_Key kr) = [] then deleteLocal env w keyMgr krs
      else case DeleteKey env w keyMgr (LocalPath (kr_Key kr)) of
             (err, w1) \<Rightarrow> deleteLocal env w1 keyMgr krs)"

text \<open>
  \<open>revokeCollected\<close> is \<^verbatim>\<open>runRevoke\<close> from the comment \<^verbatim>\<open>Collect keys to revoke\<close> on. The
  statement \<^verbatim>\<open>kr.Key.Status = config.KeyStatusRevoked\<close> writes to the element of
  \<^verbatim>\<open>keysToRevoke\<close>; the configuration handed to \<^verbatim>\<open>mgr.Save\<close> is the one that was loaded.
\<close>

definition revokeCollected ::
  "Env \<Rightarrow> World \<Rightarrow> string \<Rightarrow> Config \<Rightarrow> string \<Rightarrow> string \<Rightarrow> error option \<times> World" where
  "revokeCollected env w mgr cfg wantedPersona wantedPlatform =
     (let keysToRevoke = revocationsOfPersonas wantedPersona wantedPlatform 0 (Personas cfg)
      in if length keysToRevoke = 0 then (None, w)
         else if ToLower (response env) \<noteq> ''y'' then (None, w)
         else
           (case revokeEach env w keysToRevoke of
              (keysToRevoke', w1) \<Rightarrow>
                (let w2 = (if revokeLocal env then
                             deleteLocal env w1
                               (sshkey_NewManager env (filepath_Join (HOME env) ''.ssh''))
                               keysToRevoke'
                           else w1)
                 in case Save env w2 mgr cfg of
                      (Some e, w3) \<Rightarrow> (Some SaveFailed, w3)
                    | (None, w3) \<Rightarrow> (None, w3))))"

definition runRevoke :: "Env \<Rightarrow> World \<Rightarrow> error option \<times> World" where
  "runRevoke env w =
     (let configPath = (if cfgFile env = [] then GetDefaultConfigPath env else cfgFile env);
          mgr = config_NewManager env configPath
      in case Exists env w mgr of
           (False, w1) \<Rightarrow> (Some (ConfigNotFound configPath), w1)
         | (True, w1) \<Rightarrow>
             (case Load env w1 mgr of
                (Inl e, w2) \<Rightarrow> (Some LoadFailed, w2)
              | (Inr cfg, w2) \<Rightarrow>
                  if length (args env) > 0 then
                    (let parts = Split (args env ! 0) (CHR ''/'')
                     in revokeCollected env w2 mgr cfg (parts ! 0)
                          (if length parts > 1 then parts ! 1 else []))
                  else if revokePersona env \<noteq> [] then
                    revokeCollected env w2 mgr cfg (revokePersona env) (revokePlatform env)
                  else if revokeFingerprint env \<noteq> [] then
                    revokeByFingerprint env w2 cfg (revokeFingerprint env)
                  else if \<not> revokeAll env then (Some NoSelection, w2)
                  else revokeCollected env w2 mgr cfg [] []))"

section \<open>The rotate command (internal/commands/keychain.go)\<close>

text \<open>
  \<^verbatim>\<open>rotateKey\<close> gets pointers to the configuration and to the rotation and writes to
  both: the model returns the two with the error and the world. The function registered
  with \<^verbatim>\<open>defer\<close> runs at every return that follows its registration; it is
  \<open>cleanup\<close>, applied at each of these returns to the rotation as it is then.
\<close>

record keyRotation =
  PersonaName :: string
  PersonaIdx :: nat
  rot_PlatformType :: PlatformType
  PlatformIdx :: nat
  KeyIdx :: nat
  rot_Account :: string
  rot_BaseURL :: string
  OldKey :: KeyConfig
  NewKey :: "KeyConfig option"
  MachineName :: string

definition uploadKey :: "Env \<Rightarrow> World \<Rightarrow> keyRotation \<Rightarrow> string \<Rightarrow> (error + string) \<times> World" where
  "uploadKey env w rot publicKey =
     (if rot_PlatformType rot = PlatformGitHub \<or> rot_PlatformType rot = PlatformGitLab then
        (let tokenService =
               (if rot_PlatformType rot = PlatformGitHub then ''git-keys-github''
                else ''git-keys-gitlab'')
         in case lookupToken env w tokenService (rot_Account rot) of
              (None, w1) \<Rightarrow> (Inl NoAPIToken, w1)
            | (Some token, w1) \<Rightarrow>
                (let c = (if rot_PlatformType rot = PlatformGitHub then NewGitHubClient token
                          else NewGitLabClient
                                 (if rot_BaseURL rot = [] then ''https://gitlab.com''
                                  else rot_BaseURL rot) token)
                 in case time_Now env w1 of
                      (t, w2) \<Rightarrow>
                        (let title = rot_Account rot @ ''@'' @ MachineName rot @
                                     '' (rotated '' @ FormatDate env t @ '')''
                         in case AddKey env w2 c title publicKey of
                              (None, w3) \<Rightarrow> (Inl UploadKeyFailed, w3)
                            | (Some remoteID, w3) \<Rightarrow> (Inr remoteID, w3))))
      else (Inl (UnsupportedPlatform (rot_PlatformType rot)), w))"

definition deleteKey :: "Env \<Rightarrow> World \<Rightarrow> keyRotation \<Rightarrow> string \<Rightarrow> error option \<times> World" where
  "deleteKey env w rot keyID =
     (let tokenService =
            (if rot_PlatformType rot = PlatformGitHub then ''git-keys-github''
             else ''git-keys-gitlab'')
      in case lookupToken env w tokenService (rot_Account rot) of
           (None, w1) \<Rightarrow> (Some NoAPIToken, w1)
         | (Some token, w1) \<Rightarrow>
             (let c = (if rot_PlatformType rot = PlatformGitHub then NewGitHubClient token
                       else NewGitLabClient
                              (if rot_BaseURL rot = [] then ''https://gitlab.com''
                               else rot_BaseURL rot) token)
              in case client_Delete env w1 c keyID of
                   (False, w2) \<Rightarrow> (Some DeleteFromPlatformFailed, w2)
                 | (True, w2) \<Rightarrow> (None, w2)))"

definition rotationHost :: "keyRotation \<Rightarrow> string" where
  \<comment> \<open>the host that \<^verbatim>\<open>updateSSHConfigForRotation\<close> and \<^verbatim>\<open>validateSSHKey\<close> each compute\<close>
  "rotationHost rot =
     (if rot_PlatformType rot = PlatformGitHub then ''github.com''
      else if rot_PlatformType rot = PlatformGitLab then
        (if rot_BaseURL rot \<noteq> [] then
           TrimSuffix (TrimPrefix (TrimPrefix (rot_BaseURL rot) ''https://'') ''http://'') ''/''
         else ''gitlab.com'')
      else [])"

definition updateSSHConfigForRotation ::
  "Env \<Rightarrow> World \<Rightarrow> keyRotation \<Rightarrow> string \<Rightarrow> error option \<times> World" where
  "updateSSHConfigForRotation env w rot sshDir =
     (let configPath = filepath_Join sshDir ''config'';
          mgr = sshconfig_NewManager env configPath;
          host = rotationHost rot
      in case NewKey rot of
           None \<Rightarrow> (Some NilDereference, w)
         | Some newKey \<Rightarrow>
             AddOrUpdateEntry env w mgr
               (''git-keys-'' @ PersonaName rot @ ''-'' @ rot_PlatformType rot)
               [\<lparr>e_Host = host, e_HostName = host, e_User = ''git'',
                 e_IdentityFile = LocalPath newKey, Extra = []\<rparr>])"

definition validateSSHKey :: "Env \<Rightarrow> World \<Rightarrow> keyRotation \<Rightarrow> error option \<times> World" where
  "validateSSHKey env w rot =
     (let sshHost = (if rot_PlatformType rot = PlatformGitHub \<or>
                        rot_PlatformType rot = PlatformGitLab
                     then ''git@'' @ rotationHost rot else [])
      in case exec_Command env w
                [''ssh'', ''-T'', ''-o'', ''StrictHostKeyChecking=no'', ''-o'',
                 ''ConnectTimeout=10'', sshHost] of
           ((ok, output), w1) \<Rightarrow>
             if Contains output ''successfully authenticated'' \<or>
                Contains output ''Welcome to GitLab'' \<or> Contains output ''Hi ''
             then (None, w1)
             else if \<not> ok then (Some ValidationFailed, w1)
             else (None, w1))"

definition archiveOldKey :: "Env \<Rightarrow> World \<Rightarrow> string \<Rightarrow> string \<Rightarrow> error option \<times> World" where
  "archiveOldKey env w keyPath sshDir =
     (case time_Now env w of
        (t, w1) \<Rightarrow>
          (let timestamp = FormatDate env t;
               archiveDir = filepath_Join sshDir ''archive''
           in case os_MkdirAll env w1 archiveDir of
                (Some e, w2) \<Rightarrow> (Some MkdirFailed, w2)
              | (None, w2) \<Rightarrow>
                  (let oldPrivate = filepath_Join sshDir keyPath;
                       newPrivate = filepath_Join archiveDir
                                      (filepath_Base keyPath @ ''.old-'' @ timestamp)
                   in case os_Rename env w2 oldPrivate newPrivate of
                        (Some Denied, w3) \<Rightarrow> (Some ArchiveFailed, w3)
                      | (r, w3) \<Rightarrow>
                          (case os_Rename env w3 (oldPrivate @ ''.pub'') (newPrivate @ ''.pub'') of
                             (r', w4) \<Rightarrow> (None, w4)))))"

definition cleanup :: "Env \<Rightarrow> World \<Rightarrow> string \<Rightarrow> string \<Rightarrow> keyRotation \<Rightarrow> World" where
  "cleanup env w keyMgr newKeyPath rot =
     (if NewKey rot = None then snd (DeleteKey env w keyMgr newKeyPath) else w)"

definition rotateKey ::
  "Env \<Rightarrow> Config \<Rightarrow> World \<Rightarrow> keyRotation \<Rightarrow> error option \<times> Config \<times> keyRotation \<times> World" where
  "rotateKey env cfg w rot =
     (let sshDir = filepath_Join (HOME env) ''.ssh'';
          keyMgr = sshkey_NewManager env sshDir;
          keyType = (if KeyType (Defaults cfg) = [] then KeyTypeED25519
                     else KeyType (Defaults cfg));
          expiryMonths = (if KeyExpiration (Defaults cfg) > 0
                          then expirationMonths env (KeyExpiration (Defaults cfg)) else 6)
      in case time_Now env w of
           (t0, w0) \<Rightarrow>
      (let expiresAt = AddDate env t0 expiryMonths;
           keyFileName = BuildKeyFileName (rot_PlatformType rot) (rot_Account rot) keyType;
           keyComment = BuildKeyComment (rot_PlatformType rot) (rot_Account rot) (MachineName rot);
           newKeyPath = keyFileName @ ''-new''
       in case GenerateKey env w0 keyMgr keyType keyComment newKeyPath of
            (Some e, w1) \<Rightarrow> (Some (GenerateFailed e), cfg, rot, w1)
          | (None, w1) \<Rightarrow>
      (case GetFingerprint env w1 keyMgr newKeyPath of
         (Inl e, w2) \<Rightarrow>
           (Some (FingerprintFailed e), cfg, rot, cleanup env w2 keyMgr newKeyPath rot)
       | (Inr fingerprint, w2) \<Rightarrow>
      (case GetPublicKey env w2 keyMgr newKeyPath of
         (Inl e, w3) \<Rightarrow>
           (Some (PublicKeyFailed e), cfg, rot, cleanup env w3 keyMgr newKeyPath rot)
       | (Inr publicKey, w3) \<Rightarrow>
      (case uploadKey env w3 rot publicKey of
         (Inl e, w4) \<Rightarrow> (Some (UploadFailed e), cfg, rot, cleanup env w4 keyMgr newKeyPath rot)
       | (Inr remoteID, w4) \<Rightarrow>
      (case time_Now env w4 of
         (t1, w5) \<Rightarrow>
      (let newKey = \<lparr>Key_Type = keyType, CreatedAt = t1, ExpiresAt = expiresAt,
                      Fingerprint = fingerprint, LocalPath = newKeyPath, RemoteID = remoteID,
                      Status = KeyStatusActive\<rparr>;
           rot1 = rot\<lparr>NewKey := Some newKey\<rparr>
       in case updateSSHConfigForRotation env w5 rot1 sshDir of
            (Some e, w6) \<Rightarrow>
              (case deleteKey env w6 rot1 remoteID of
                 (r, w7) \<Rightarrow>
                   (Some (SSHConfigFailed e), cfg, rot1, cleanup env w7 keyMgr newKeyPath rot1))
          | (None, w6) \<Rightarrow>
      (case validateSSHKey env w6 rot1 of
         (v, w7) \<Rightarrow>
      (let w8 = (if RemoteID (OldKey rot1) \<noteq> []
                 then snd (deleteKey env w7 rot1 (RemoteID (OldKey rot1))) else w7);
           w9 = (if LocalPath (OldKey rot1) \<noteq> []
                 then snd (archiveOldKey env w8 (LocalPath (OldKey rot1)) sshDir) else w8);
           oldFullPath = filepath_Join sshDir newKeyPath;
           newFullPath = filepath_Join sshDir keyFileName
       in case os_Rename env w9 oldFullPath newFullPath of
            (Some e, w10) \<Rightarrow>
              (None,
               writeKeys cfg (PersonaIdx rot1, PlatformIdx rot1)
                 (\<lambda>keys. keys[KeyIdx rot1 := newKey]),
               rot1, cleanup env w10 keyMgr newKeyPath rot1)
          | (None, w10) \<Rightarrow>
              (case os_Rename env w10 (oldFullPath @ ''.pub'') (newFullPath @ ''.pub'') of
                 (r, w11) \<Rightarrow>
                   (let rot2 = rot1\<lparr>NewKey := Some (newKey\<lparr>LocalPath := keyFileName\<rparr>)\<rparr>
                    in (None,
                        writeKeys cfg (PersonaIdx rot2, PlatformIdx rot2)
                          (\<lambda>keys. keys[KeyIdx rot2 := newKey\<lparr>LocalPath := keyFileName\<rparr>]),
                        rot2, cleanup env w11 keyMgr newKeyPath rot2))))))))))))"

fun rotationsOfKeys ::
  "string \<Rightarrow> Persona \<Rightarrow> nat \<Rightarrow> Platform \<Rightarrow> nat \<Rightarrow> nat \<Rightarrow> KeyConfig list \<Rightarrow> keyRotation list" where
  "rotationsOfKeys machineName persona personaIdx platform platformIdx keyIdx [] = []"
| "rotationsOfKeys machineName persona personaIdx platform platformIdx keyIdx (key # keys) =
     (if Status key \<noteq> KeyStatusActive then
        rotationsOfKeys machineName persona personaIdx platform platformIdx (Suc keyIdx) keys
      else \<lparr>PersonaName = Name persona, PersonaIdx = personaIdx,
            rot_PlatformType = Type platform, PlatformIdx = platformIdx, KeyIdx = keyIdx,
            rot_Account = Account platform, rot_BaseURL = BaseURL platform, OldKey = key,
            NewKey = None, MachineName = machineName\<rparr>
           # rotationsOfKeys machineName persona personaIdx platform platformIdx (Suc keyIdx) keys)"

fun rotationsOfPlatforms ::
  "string \<Rightarrow> string \<Rightarrow> Persona \<Rightarrow> nat \<Rightarrow> nat \<Rightarrow> Platform list \<Rightarrow> keyRotation list" where
  "rotationsOfPlatforms wantedPlatform machineName persona personaIdx platformIdx [] = []"
| "rotationsOfPlatforms wantedPlatform machineName persona personaIdx platformIdx
     (platform # platforms) =
     (if wantedPlatform \<noteq> [] \<and> Type platform \<noteq> wantedPlatform then
        rotationsOfPlatforms wantedPlatform machineName persona personaIdx (Suc platformIdx)
          platforms
      else rotationsOfKeys machineName persona personaIdx platform platformIdx 0 (Keys platform) @
           rotationsOfPlatforms wantedPlatform machineName persona personaIdx (Suc platformIdx)
             platforms)"

fun rotationsOfPersonas ::
  "string \<Rightarrow> string \<Rightarrow> string \<Rightarrow> nat \<Rightarrow> Persona list \<Rightarrow> keyRotation list" where
  "rotationsOfPersonas wantedPersona wantedPlatform machineName personaIdx [] = []"
| "rotationsOfPersonas wantedPersona wantedPlatform machineName personaIdx (persona # personas) =
     (if wantedPersona \<noteq> [] \<and> Name persona \<noteq> wantedPersona then
        rotationsOfPersonas wantedPersona wantedPlatform machineName (Suc personaIdx) personas
      else rotationsOfPlatforms wantedPlatform machineName persona personaIdx 0
             (Platforms persona) @
           rotationsOfPersonas wantedPersona wantedPlatform machineName (Suc personaIdx) personas)"

fun rotateEach ::
  "Env \<Rightarrow> Config \<Rightarrow> World \<Rightarrow> keyRotation list \<Rightarrow> Config \<times> World \<times> nat \<times> nat" where
  "rotateEach env cfg w [] = (cfg, w, 0, 0)"
| "rotateEach env cfg w (rot # rotations) =
     (case rotateKey env cfg w rot of
        (Some e, cfg1, rot1, w1) \<Rightarrow>
          (case rotateEach env cfg1 w1 rotations of
             (cfg2, w2, successful, failed) \<Rightarrow> (cfg2, w2, successful, Suc failed))
      | (None, cfg1, rot1, w1) \<Rightarrow>
          (case rotateEach env cfg1 w1 rotations of
             (cfg2, w2, successful, failed) \<Rightarrow> (cfg2, w2, Suc successful, failed)))"

text \<open>
  \<open>rotateCollected\<close> is \<^verbatim>\<open>runRotate\<close> from the comment \<^verbatim>\<open>Collect keys to rotate\<close> on.
\<close>

definition rotateCollected ::
  "Env \<Rightarrow> World \<Rightarrow> string \<Rightarrow> Config \<Rightarrow> string \<Rightarrow> string \<Rightarrow> string \<Rightarrow> error option \<times> World" where
  "rotateCollected env w mgr cfg machineName wantedPersona wantedPlatform =
     (let rotations = rotationsOfPersonas wantedPersona wantedPlatform machineName 0 (Personas cfg)
      in if length rotations = 0 then (None, w)
         else if rotateDryRun env then (None, w)
         else if ToLower (response env) \<noteq> ''y'' then (None, w)
         else
           (case rotateEach env cfg w rotations of
              (cfg', w1, successful, failed) \<Rightarrow>
                (case (if successful > 0 then Save env w1 mgr cfg' else (None, w1)) of
                   (Some e, w2) \<Rightarrow> (Some SaveFailed, w2)
                 | (None, w2) \<Rightarrow>
                     if failed > 0 then (Some (RotationsFailed failed), w2) else (None, w2))))"

definition runRotate :: "Env \<Rightarrow> World \<Rightarrow> error option \<times> World" where
  "runRotate env w =
     (let configPath = (if cfgFile env = [] then GetDefaultConfigPath env else cfgFile env);
          mgr = config_NewManager env configPath
      in case Exists env w mgr of
           (False, w1) \<Rightarrow> (Some (ConfigNotFound configPath), w1)
         | (True, w1) \<Rightarrow>
             (case Load env w1 mgr of
                (Inl e, w2) \<Rightarrow> (Some LoadFailed, w2)
              | (Inr cfg, w2) \<Rightarrow>
                  (case NewPlatform env of
                     Some e \<Rightarrow> (Some PlatformInfoFailed, w2)
                   | None \<Rightarrow>
                       (case GetMachineName env w2 of
                          (name, w3) \<Rightarrow>
                            (let machineName =
                                   (case name of None \<Rightarrow> ''unknown'' | Some n \<Rightarrow> n)
                             in if length (args env) > 0 then
                                  (let parts = Split (args env ! 0) (CHR ''/'')
                                   in rotateCollected env w3 mgr cfg machineName (parts ! 0)
                                        (if length parts > 1 then parts ! 1 else []))
                                else if rotatePersona env \<noteq> [] then
                                  rotateCollected env w3 mgr cfg machineName (rotatePersona env) []
                                else if \<not> rotateAll env then (Some NoSelection, w3)
                                else rotateCollected env w3 mgr cfg machineName [] [])))))"

section \<open>The apply command\<close>

text \<open>
  The source holds two versions of \<^verbatim>\<open>runApply\<close>. Their loop over the personas and
  platforms is the same, and so is \<^verbatim>\<open>updateSSHConfig\<close> but for the alias, where the
  longer version removes some characters from the persona name. The shorter version is
  the one modelled. The loop works on pointers into the configuration: \<open>applyPlatform\<close>,
  the body of the inner loop, returns the platform as the loop leaves it and whether the
  configuration has changed.
\<close>

definition updateSSHConfig ::
  "Env \<Rightarrow> World \<Rightarrow> string \<Rightarrow> Persona \<Rightarrow> Platform \<Rightarrow> KeyConfig \<Rightarrow> error option \<times> World" where
  "updateSSHConfig env w sshMgr persona platform key =
     (let blockID = GetManagedBlockID (Name persona) (Type platform) (Account platform);
          hostname =
            (if Type platform = PlatformGitLab then
               (if BaseURL platform \<noteq> [] \<and> BaseURL platform \<noteq> ''https://gitlab.com'' then
                  TrimPrefix (TrimPrefix (BaseURL platform) ''https://'') ''http://''
                else ''gitlab.com'')
             else ''github.com'');
          entries = [\<lparr>e_Host = hostname @ ''.'' @ Name persona, e_HostName = hostname,
                      e_User = ''git'', e_IdentityFile = ''~/.ssh/'' @ LocalPath key,
                      Extra = [(''IdentitiesOnly'', ''yes'')]\<rparr>]
      in case AddOrUpdateEntry env w sshMgr blockID entries of
           (Some e, w1) \<Rightarrow> (Some (SSHConfigFailed e), w1)
         | (None, w1) \<Rightarrow> (None, w1))"

definition applyPlatform ::
  "Env \<Rightarrow> World \<Rightarrow> Config \<Rightarrow> string \<Rightarrow> string \<Rightarrow> string \<Rightarrow> Persona \<Rightarrow> Platform \<Rightarrow>
   error option \<times> Platform \<times> bool \<times> World" where
  "applyPlatform env w cfg machineName keyMgr sshMgr persona platform =
     (case GetActiveKey platform of
        Some i \<Rightarrow>
          (case updateSSHConfig env w sshMgr persona platform (Keys platform ! i) of
             (Some e, w1) \<Rightarrow> (Some e, platform, False, w1)
           | (None, w1) \<Rightarrow> (None, platform, False, w1))
      | None \<Rightarrow>
          (let keyFileName = BuildKeyFileName (Type platform) (Account platform)
                               (KeyType (Defaults cfg));
               keyComment = BuildKeyComment (Type platform) (Account platform) machineName
           in case GenerateKey env w keyMgr (KeyType (Defaults cfg)) keyComment keyFileName of
                (Some e, w1) \<Rightarrow> (Some (GenerateFailed e), platform, False, w1)
              | (None, w1) \<Rightarrow>
                  (case GetFingerprint env w1 keyMgr keyFileName of
                     (Inl e, w2) \<Rightarrow> (Some (FingerprintFailed e), platform, False, w2)
                   | (Inr fingerprint, w2) \<Rightarrow>
                       (case time_Now env w2 of
                          (t1, w3) \<Rightarrow>
                            (case time_Now env w3 of
                               (t2, w4) \<Rightarrow>
                                 (let newKey =
                                        \<lparr>Key_Type = KeyType (Defaults cfg), CreatedAt = t1,
                                         ExpiresAt = AddDate env t2 6,
                                         Fingerprint = fingerprint, LocalPath = keyFileName,
                                         RemoteID = [], Status = KeyStatusActive\<rparr>;
                                      platform' = platform\<lparr>Keys := Keys platform @ [newKey]\<rparr>
                                  in case updateSSHConfig env w4 sshMgr persona platform'
                                            (Keys platform' ! (length (Keys platform') - 1)) of
                                       (Some e, w5) \<Rightarrow> (Some e, platform', True, w5)
                                     | (None, w5) \<Rightarrow> (None, platform', True, w5)))))))"

fun applyPlatforms ::
  "Env \<Rightarrow> World \<Rightarrow> Config \<Rightarrow> string \<Rightarrow> string \<Rightarrow> string \<Rightarrow> Persona \<Rightarrow> Platform list \<Rightarrow>
   error option \<times> Platform list \<times> bool \<times> World" where
  "applyPlatforms env w cfg machineName keyMgr sshMgr persona [] = (None, [], False, w)"
| "applyPlatforms env w cfg machineName keyMgr sshMgr persona (platform # platforms) =
     (case applyPlatform env w cfg machineName keyMgr sshMgr persona platform of
        (Some e, platform', changed, w1) \<Rightarrow> (Some e, platform' # platforms, changed, w1)
      | (None, platform', changed, w1) \<Rightarrow>
          (case applyPlatforms env w1 cfg machineName keyMgr sshMgr persona platforms of
             (err, platforms', changed', w2) \<Rightarrow>
               (err, platform' # platforms', changed \<or> changed', w2)))"

fun applyPersonas ::
  "Env \<Rightarrow> World \<Rightarrow> Config \<Rightarrow> string \<Rightarrow> string \<Rightarrow> string \<Rightarrow> Persona list \<Rightarrow>
   error option \<times> Persona list \<times> bool \<times> World" where
  "applyPersonas env w cfg machineName keyMgr sshMgr [] = (None, [], False, w)"
| "applyPersonas env w cfg machineName keyMgr sshMgr (persona # personas) =
     (case applyPlatforms env w cfg machineName keyMgr sshMgr persona (Platforms persona) of
        (Some e, platforms', changed, w1) \<Rightarrow>
          (Some e, persona\<lparr>Platforms := platforms'\<rparr> # personas, changed, w1)
      | (None, platforms', changed, w1) \<Rightarrow>
          (case applyPersonas env w1 cfg machineName keyMgr sshMgr personas of
             (err, personas', changed', w2) \<Rightarrow>
               (err, persona\<lparr>Platforms := platforms'\<rparr> # personas', changed \<or> changed', w2)))"

definition runApply :: "Env \<Rightarrow> World \<Rightarrow> error option \<times> World" where
  "runApply env w =
     (let configPath = (if cfgFile env = [] then GetDefaultConfigPath env else cfgFile env);
          mgr = config_NewManager env configPath
      in case Exists env w mgr of
           (False, w1) \<Rightarrow> (Some (ConfigNotFound configPath), w1)
         | (True, w1) \<Rightarrow>
             (case Load env w1 mgr of
                (Inl e, w2) \<Rightarrow> (Some LoadFailed, w2)
              | (Inr cfg, w2) \<Rightarrow>
                  (case NewPlatform env of
                     Some e \<Rightarrow> (Some PlatformInfoFailed, w2)
                   | None \<Rightarrow>
                       (case GetMachineName env w2 of
                          (name, w3) \<Rightarrow>
                            (let machineName =
                                   (case name of None \<Rightarrow> ''unknown'' | Some n \<Rightarrow> n);
                                 answer = TrimSpace (ToLower (response env))
                             in if \<not> applyYes env \<and> answer \<noteq> ''y'' \<and> answer \<noteq> ''yes''
                                then (None, w3)
                                else
                                  (let keyMgr = sshkey_NewManager env [];
                                       sshMgr = sshconfig_NewManager env
                                                  (SSHConfigPath (Defaults cfg))
                                   in case BackupConfig env w3 sshMgr of
                                        (b, w4) \<Rightarrow>
                                          (case applyPersonas env w4 cfg machineName keyMgr
                                                  sshMgr (Personas cfg) of
                                             (Some e, personas', changed, w5) \<Rightarrow> (Some e, w5)
                                           | (None, personas', changed, w5) \<Rightarrow>
                                               if changed then
                                                 (case Save env w5 mgr
                                                         (cfg\<lparr>Personas := personas'\<rparr>) of
                                                    (Some e, w6) \<Rightarrow> (Some SaveFailed, w6)
                                                  | (None, w6) \<Rightarrow> (None, w6))
                                               else (None, w5))))))))"

section \<open>Properties of the recommendation engine\<close>

lemma foldl_snoc_map: "foldl (\<lambda>acc x. acc @ [f x]) a xs = a @ map f xs"
  by (induction xs arbitrary: a) simp_all

lemma firstActive_bounds: "firstActive i ks = Some j \<Longrightarrow> i \<le> j \<and> j < i + length ks"
proof (induction ks arbitrary: i)
  case Nil
  then show ?case by simp
next
  case (Cons k ks)
  show ?case
  proof (cases "Status k = KeyStatusActive")
    case True
    with Cons.prems show ?thesis by simp
  next
    case False
    with Cons.prems have "firstActive (Suc i) ks = Some j" by simp
    then have "Suc i \<le> j \<and> j < Suc i + length ks" by (rule Cons.IH)
    then show ?thesis by simp
  qed
qed

lemma firstActive_find:
  "map_option (\<lambda>j. ks ! (j - i)) (firstActive i ks) =
   List.find (\<lambda>k. Status k = KeyStatusActive) ks"
proof (induction ks arbitrary: i)
  case Nil
  show ?case by simp
next
  case (Cons k ks)
  show ?case
  proof (cases "Status k = KeyStatusActive")
    case True
    then show ?thesis by simp
  next
    case False
    have "map_option (\<lambda>j. (k # ks) ! (j - i)) (firstActive (Suc i) ks) =
          map_option (\<lambda>j. ks ! (j - Suc i)) (firstActive (Suc i) ks)"
    proof (cases "firstActive (Suc i) ks")
      case None
      then show ?thesis by simp
    next
      case (Some j)
      then have "Suc i \<le> j" using firstActive_bounds by blast
      then have "j - i = Suc (j - Suc i)" by simp
      then show ?thesis using Some by simp
    qed
    then show ?thesis using False Cons.IH [of "Suc i"] by simp
  qed
qed

lemma GetActiveKey_find:
  "map_option (\<lambda>i. Keys p ! i) (GetActiveKey p) =
   List.find (\<lambda>k. Status k = KeyStatusActive) (Keys p)"
  using firstActive_find [of "Keys p" 0] by (simp add: GetActiveKey_def)

definition projectPlatform :: "Platform \<Rightarrow> RecommendedPlatform" where
  "projectPlatform platform =
     \<lparr>rec_Type = Type platform, rec_Account = Account platform, rec_BaseURL = BaseURL platform,
      KeyPath = (case List.find (\<lambda>k. Status k = KeyStatusActive) (Keys platform) of
                   Some k \<Rightarrow> LocalPath k | None \<Rightarrow> [])\<rparr>"

definition projectPersona :: "Persona \<Rightarrow> RecommendedPersona" where
  "projectPersona persona =
     \<lparr>rec_Name = Name persona, rec_Email = Email persona,
      rec_Platforms = map projectPlatform (Platforms persona)\<rparr>"

lemma recommendDeclared_map:
  "recommendDeclared cfg = \<lparr>rec_Personas = map projectPersona (Personas cfg)\<rparr>"
proof -
  have inner: "(let recPlatform =
                      \<lparr>rec_Type = Type platform, rec_Account = Account platform,
                       rec_BaseURL = BaseURL platform, KeyPath = []\<rparr>
                in platforms @
                   [case GetActiveKey platform of
                      Some i \<Rightarrow> recPlatform\<lparr>KeyPath := LocalPath (Keys platform ! i)\<rparr>
                    | None \<Rightarrow> recPlatform]) = platforms @ [projectPlatform platform]"
    for platform platforms
    unfolding projectPlatform_def GetActiveKey_find [of platform, symmetric]
    by (simp split: option.split)
  show ?thesis
    unfolding recommendDeclared_def inner
    by (simp add: foldl_snoc_map projectPersona_def)
qed

text \<open>
  C4. With a declared configuration the recommendation is its projection, persona by
  persona and platform by platform, in the declared order: the names, emails, types,
  accounts and base URLs are copied; the key path is the local path of the first key of
  the platform whose status is active, and empty when no key of the platform has that
  status; the result is the same for every scan snapshot and every map order.
\<close>

theorem C4_declared_projection:
  "rec_Personas (analyzeAndRecommend pick order scanResult (Some cfg)) =
     map (\<lambda>persona.
       \<lparr>rec_Name = Name persona, rec_Email = Email persona,
        rec_Platforms =
          map (\<lambda>platform.
            \<lparr>rec_Type = Type platform, rec_Account = Account platform,
             rec_BaseURL = BaseURL platform,
             KeyPath = (case List.find (\<lambda>k. Status k = KeyStatusActive) (Keys platform) of
                          Some k \<Rightarrow> LocalPath k | None \<Rightarrow> [])\<rparr>)
            (Platforms persona)\<rparr>)
       (Personas cfg)
   \<and> analyzeAndRecommend pick order scanResult (Some cfg) =
     analyzeAndRecommend pick' order' scanResult' (Some cfg)"
proof -
  have "projectPersona = (\<lambda>persona.
       \<lparr>rec_Name = Name persona, rec_Email = Email persona,
        rec_Platforms =
          map (\<lambda>platform.
            \<lparr>rec_Type = Type platform, rec_Account = Account platform,
             rec_BaseURL = BaseURL platform,
             KeyPath = (case List.find (\<lambda>k. Status k = KeyStatusActive) (Keys platform) of
                          Some k \<Rightarrow> LocalPath k | None \<Rightarrow> [])\<rparr>)
            (Platforms persona)\<rparr>)"
    by (rule ext) (simp add: projectPersona_def projectPlatform_def [abs_def])
  then show ?thesis
    by (simp add: analyzeAndRecommend_def recommendDeclared_map)
qed

subsection \<open>Routing entries of the inference branch\<close>







































section \<open>Properties of the commands\<close>

text \<open>
  An environment in which nothing is refused, every program exits with status 0 and prints
  nothing, and every platform call succeeds. The serialisation of the declared model is
  left open.
\<close>

definition calmEnv :: "(Config \<Rightarrow> string option) \<Rightarrow> (string \<Rightarrow> Config option) \<Rightarrow> Env" where
  "calmEnv marshal unmarshal =
     \<lparr>HOME = ''/home/dev'', UserHomeDir = Some ''/home/dev'', GOOS = ''darwin'', cfgFile = [],
      args = [], response = ''y'', revokeAll = False, revokeLocal = False,
      revokeFingerprint = [], revokePersona = [], revokePlatform = [], rotateAll = False,
      rotatePersona = [], rotateDryRun = False, applyYes = False,
      refused = (\<lambda>t c path. False),
      command = (\<lambda>t argv. (True, [])),
      keypair = (\<lambda>t. (''PRIVATE KEY'', ''ssh-ed25519 AAAAC3 dev'')),
      now = (\<lambda>t. int t),
      AddDate = (\<lambda>t months. t + 30 * months),
      FormatDate = (\<lambda>t. ''2026-01-01''),
      expirationMonths = (\<lambda>d. d div 30),
      Marshal = marshal, Unmarshal = unmarshal,
      client_AddKey = (\<lambda>t c title key. Some ''4711''),
      client_DeleteKey = (\<lambda>t c keyID. True),
      extraOrder = (\<lambda>i. [])\<rparr>"

subsection \<open>The upsert of a managed block\<close>

definition routingLines :: "string list" where
  "routingLines =
     [''Host example'',
      ''  HostName example.org'',
      '''',
      ''# BEGIN git-keys managed block - work-github-bobby'',
      ''Host github.com.work'',
      ''  HostName github.com'',
      ''  IdentityFile ~/.ssh/bobby'',
      '''',
      ''# END git-keys managed block'',
      '''']"

definition bobEntry :: Entry where
  "bobEntry =
     \<lparr>e_Host = ''github.com.work'', e_HostName = ''github.com'', e_User = ''git'',
      e_IdentityFile = ''~/.ssh/bob'', Extra = [(''IdentitiesOnly'', ''yes'')]\<rparr>"

lemma Split_routingLines: "Split (Join routingLines [CHR 0x0A]) (CHR 0x0A) = routingLines"
  by code_simp

lemma removeManagedBlock_routingLines: "removeManagedBlock routingLines ''work-github-bob'' =
   [''Host example'', ''  HostName example.org'', '''', '''']"
  by code_simp

text \<open>
  C9. The upsert of block \<^verbatim>\<open>work-github-bob\<close> into a routing file that holds the managed
  block \<^verbatim>\<open>work-github-bobby\<close> and no block of its own: the start marker is matched as a
  prefix of the line, so the lines of the other block, which lie outside the region
  named by the block id, are not in the file that is written.
\<close>

theorem C9_upsert_drops_block_with_longer_id: "AddOrUpdateEntry (calmEnv m u)
     \<lparr>files = [''/home/dev/.ssh/config'' \<mapsto> Join routingLines [CHR 0x0A]], tick = 0, trace = []\<rparr>
     ''/home/dev/.ssh/config'' ''work-github-bob'' [bobEntry] =
   (None,
    \<lparr>files = [''/home/dev/.ssh/config'' \<mapsto>
        Join [''Host example'', ''  HostName example.org'', '''', '''',
              '''',
              ''# BEGIN git-keys managed block - work-github-bob'',
              ''Host github.com.work'',
              ''  HostName github.com'',
              ''  User git'',
              ''  IdentityFile ~/.ssh/bob'',
              ''  IdentitiesOnly yes'',
              '''',
              ''# END git-keys managed block'',
              ''''] [CHR 0x0A]],
     tick = 4, trace = []\<rparr>)"
  unfolding AddOrUpdateEntry_def EnsureConfigExists_def os_MkdirAll_def os_Stat_def
    os_ReadFile_def os_WriteFile_def step_def calmEnv_def
  apply (simp add: Split_routingLines removeManagedBlock_routingLines Let_def buildManagedBlock_def managedBlockStart_def managedBlockEnd_def bobEntry_def del: Join.simps)
  done

subsection \<open>Revocation\<close>

definition fingerprintKnown :: "Config \<Rightarrow> string \<Rightarrow> bool" where
  "fingerprintKnown cfg fingerprint =
     (\<exists>persona \<in> set (Personas cfg). \<exists>platform \<in> set (Platforms persona).
        \<exists>key \<in> set (Keys platform). TrimPrefix (Fingerprint key) ''SHA256:'' = fingerprint)"

lemma findInKeys_None:
  "(findInKeys fp persona platform ref keys = None) =
   (\<forall>key \<in> set keys. TrimPrefix (Fingerprint key) ''SHA256:'' \<noteq> fp)"
  by (induction keys) auto

lemma findInPlatforms_None:
  "(findInPlatforms fp persona i j platforms = None) =
   (\<forall>platform \<in> set platforms. \<forall>key \<in> set (Keys platform).
      TrimPrefix (Fingerprint key) ''SHA256:'' \<noteq> fp)"
proof (induction platforms arbitrary: j)
  case Nil
  show ?case by simp
next
  case (Cons platform platforms)
  show ?case
  proof (cases "findInKeys fp persona platform (i, j) (Keys platform)")
    case None
    then show ?thesis
      using Cons.IH [of "Suc j"] findInKeys_None [of fp persona platform "(i, j)" "Keys platform"]
      by simp
  next
    case (Some found)
    then have "\<not> (\<forall>key \<in> set (Keys platform). TrimPrefix (Fingerprint key) ''SHA256:'' \<noteq> fp)"
      using findInKeys_None [of fp persona platform "(i, j)" "Keys platform"] by simp
    then show ?thesis using Some by auto
  qed
qed

lemma findInPersonas_None:
  "(findInPersonas fp i personas = None) =
   (\<forall>persona \<in> set personas. \<forall>platform \<in> set (Platforms persona).
      \<forall>key \<in> set (Keys platform). TrimPrefix (Fingerprint key) ''SHA256:'' \<noteq> fp)"
proof (induction personas arbitrary: i)
  case Nil
  show ?case by simp
next
  case (Cons persona personas)
  show ?case
  proof (cases "findInPlatforms fp persona i 0 (Platforms persona)")
    case None
    then show ?thesis
      using Cons.IH [of "Suc i"] findInPlatforms_None [of fp persona i 0 "Platforms persona"]
      by simp
  next
    case (Some found)
    then have "\<not> (\<forall>platform \<in> set (Platforms persona). \<forall>key \<in> set (Keys platform).
                   TrimPrefix (Fingerprint key) ''SHA256:'' \<noteq> fp)"
      using findInPlatforms_None [of fp persona i 0 "Platforms persona"] by simp
    then show ?thesis using Some by auto
  qed
qed

lemma findInPersonas_known:
  "(findInPersonas fp 0 (Personas cfg) = None) = (\<not> fingerprintKnown cfg fp)"
  by (simp add: findInPersonas_None fingerprintKnown_def)

lemma os_Stat_frame: "os_Stat env w path = (r, w') \<Longrightarrow> files w' = files w \<and> trace w' = trace w"
  by (auto simp: os_Stat_def step_def split: if_splits)

lemma os_ReadFile_frame:
  "os_ReadFile env w path = (r, w') \<Longrightarrow> files w' = files w \<and> trace w' = trace w"
  by (auto simp: os_ReadFile_def step_def split: if_splits option.splits)

lemma Exists_frame: "Exists env w path = (r, w') \<Longrightarrow> files w' = files w \<and> trace w' = trace w"
  by (auto simp: Exists_def dest: os_Stat_frame split: prod.splits)

lemma Load_frame: "Load env w path = (r, w') \<Longrightarrow> files w' = files w \<and> trace w' = trace w"
  by (auto simp: Load_def dest: os_ReadFile_frame split: prod.splits sum.splits option.splits)

lemma revokeByFingerprint_result:
  "fst (revokeByFingerprint env w cfg fingerprint) \<noteq> Some (KeyNotFound fp')
   \<or> findInPersonas (TrimPrefix fingerprint ''SHA256:'') 0 (Personas cfg) = None"
  by (auto simp: revokeByFingerprint_def Let_def split: option.splits prod.splits)

text \<open>
  C7. \<^verbatim>\<open>revokeByFingerprint\<close> returns the not-found error exactly when no key of the
  declared model has the fingerprint, both stripped of the prefix \<^verbatim>\<open>SHA256:\<close>. In that case
  it returns with the world as it found it: no file is written, no platform is called,
  nothing is saved. The same holds for the command as a whole when the fingerprint is
  what selects the target: it reads the configuration file and changes no file.
\<close>

theorem C7_unknown_fingerprint:
  "(fst (revokeByFingerprint env w cfg fingerprint) =
      Some (KeyNotFound (TrimPrefix fingerprint ''SHA256:''))) =
   (\<not> fingerprintKnown cfg (TrimPrefix fingerprint ''SHA256:''))
   \<and> (\<not> fingerprintKnown cfg (TrimPrefix fingerprint ''SHA256:'') \<longrightarrow>
        snd (revokeByFingerprint env w cfg fingerprint) = w)
   \<and> (\<not> fingerprintKnown cfg (TrimPrefix fingerprint ''SHA256:'') \<and>
      args env = [] \<and> revokePersona env = [] \<and> revokeFingerprint env = fingerprint \<and>
      fingerprint \<noteq> [] \<and>
      Exists env w (config_NewManager env
         (if cfgFile env = [] then GetDefaultConfigPath env else cfgFile env)) = (True, w1) \<and>
      Load env w1 (config_NewManager env
         (if cfgFile env = [] then GetDefaultConfigPath env else cfgFile env)) = (Inr cfg, w2)
      \<longrightarrow> fst (runRevoke env w) = Some (KeyNotFound (TrimPrefix fingerprint ''SHA256:'')) \<and>
          files (snd (runRevoke env w)) = files w \<and>
          trace (snd (runRevoke env w)) = trace w)"
proof -
  let ?fp = "TrimPrefix fingerprint ''SHA256:''"
  let ?path = "config_NewManager env
         (if cfgFile env = [] then GetDefaultConfigPath env else cfgFile env)"
  have unknown: "revokeByFingerprint env w' cfg fingerprint = (Some (KeyNotFound ?fp), w')"
    if "\<not> fingerprintKnown cfg ?fp" for w'
    using that findInPersonas_known [of ?fp cfg] by (simp add: revokeByFingerprint_def Let_def)
  have known: "fst (revokeByFingerprint env w cfg fingerprint) \<noteq> Some (KeyNotFound ?fp)"
    if "fingerprintKnown cfg ?fp"
  proof -
    have "findInPersonas ?fp 0 (Personas cfg) \<noteq> None"
      using that findInPersonas_known [of ?fp cfg] by blast
    then show ?thesis
      using revokeByFingerprint_result [of env w cfg fingerprint ?fp] by auto
  qed
  have a: "(fst (revokeByFingerprint env w cfg fingerprint) = Some (KeyNotFound ?fp)) =
           (\<not> fingerprintKnown cfg ?fp)"
    using unknown [of w] known by (cases "fingerprintKnown cfg ?fp") simp_all
  have b: "\<not> fingerprintKnown cfg ?fp \<longrightarrow> snd (revokeByFingerprint env w cfg fingerprint) = w"
    using unknown [of w] by simp
  have c: "fst (runRevoke env w) = Some (KeyNotFound ?fp) \<and>
          files (snd (runRevoke env w)) = files w \<and> trace (snd (runRevoke env w)) = trace w"
    if u: "\<not> fingerprintKnown cfg ?fp" and "args env = []" and "revokePersona env = []"
      and "revokeFingerprint env = fingerprint" and "fingerprint \<noteq> []"
      and e: "Exists env w ?path = (True, w1)" and l: "Load env w1 ?path = (Inr cfg, w2)"
  proof -
    have "runRevoke env w = (Some (KeyNotFound ?fp), w2)"
      using that unknown [OF u, of w2] by (simp add: runRevoke_def Let_def)
    moreover have "files w2 = files w \<and> trace w2 = trace w"
      using Exists_frame [OF e] Load_frame [OF l] by simp
    ultimately show ?thesis by simp
  qed
  from a b c show ?thesis by blast
qed


definition demoKey :: KeyConfig where
  "demoKey =
     \<lparr>Key_Type = KeyTypeED25519, CreatedAt = 100, ExpiresAt = 200,
      Fingerprint = ''SHA256:abc'', LocalPath = ''git-keys-github-bob-ed25519'',
      RemoteID = [], Status = KeyStatusActive\<rparr>"

definition demoCfg :: Config where
  "demoCfg =
     \<lparr>Version = ''1.0'',
      Machine = \<lparr>ID = ''M1'', Machine_Name = ''mac'', OS = ''macOS'', OSVersion = ''14''\<rparr>,
      Personas =
        [\<lparr>Name = ''work'', Email = ''dev@example.org'',
          Platforms = [\<lparr>Type = PlatformGitHub, Account = ''bob'', BaseURL = [],
                        Keys = [demoKey]\<rparr>]\<rparr>],
      Defaults = \<lparr>KeyType = KeyTypeED25519, KeyExpiration = 0, AutoRotate = False,
                  SSHConfigPath = ''/home/dev/.ssh/config''\<rparr>\<rparr>"

definition demoEnv :: "(Config \<Rightarrow> string) \<Rightarrow> Env" where
  "demoEnv serialise =
     calmEnv (\<lambda>cfg. Some (serialise cfg))
       (\<lambda>data. if data = serialise demoCfg then Some demoCfg else None)"

definition demoWorld :: "(Config \<Rightarrow> string) \<Rightarrow> World" where
  "demoWorld serialise =
     \<lparr>files = [''/home/dev/.git-keys.yaml'' \<mapsto> serialise demoCfg], tick = 0, trace = []\<rparr>"

lemma Validate_demoCfg: "Validate demoCfg = None"
  by (simp add: Validate_def demoCfg_def)

theorem C7_unknown_fingerprint_witness:
  "\<not> fingerprintKnown demoCfg ''zzz'' \<and>
   revokeByFingerprint ((demoEnv (\<lambda>cfg. ''model''))\<lparr>revokeFingerprint := ''SHA256:zzz'', revokeAll := False\<rparr>)
     (demoWorld (\<lambda>cfg. ''model'')) demoCfg ''SHA256:zzz'' =
     (Some (KeyNotFound ''zzz''), demoWorld (\<lambda>cfg. ''model'')) \<and>
   fst (runRevoke ((demoEnv (\<lambda>cfg. ''model''))\<lparr>revokeFingerprint := ''SHA256:zzz'', revokeAll := False\<rparr>)
          (demoWorld (\<lambda>cfg. ''model''))) = Some (KeyNotFound ''zzz'') \<and>
   files (snd (runRevoke ((demoEnv (\<lambda>cfg. ''model''))\<lparr>revokeFingerprint := ''SHA256:zzz'', revokeAll := False\<rparr>)
          (demoWorld (\<lambda>cfg. ''model'')))) ''/home/dev/.git-keys.yaml'' = Some ''model''"
proof -
  let ?s = "\<lambda>cfg::Config. ''model''"
  let ?env = "(demoEnv ?s)\<lparr>revokeFingerprint := ''SHA256:zzz'', revokeAll := False\<rparr>"
  let ?path = "config_NewManager ?env
                 (if cfgFile ?env = [] then GetDefaultConfigPath ?env else cfgFile ?env)"
  have t: "TrimPrefix ''SHA256:zzz'' ''SHA256:'' = ''zzz''"
    by (simp add: TrimPrefix_def HasPrefix_def)
  have u: "\<not> fingerprintKnown demoCfg ''zzz''"
    by (simp add: fingerprintKnown_def demoCfg_def demoKey_def TrimPrefix_def HasPrefix_def)
  have e: "args ?env = [] \<and> revokePersona ?env = [] \<and> revokeFingerprint ?env = ''SHA256:zzz''"
    by (simp add: demoEnv_def calmEnv_def)
  have p: "?path = ''/home/dev/.git-keys.yaml''"
    by (simp add: config_NewManager_def GetDefaultConfigPath_def demoEnv_def calmEnv_def
        filepath_Join_def)
  have x: "Exists ?env (demoWorld ?s) ?path = (True, (demoWorld ?s)\<lparr>tick := 1\<rparr>)"
    unfolding p by (simp add: Exists_def os_Stat_def step_def demoEnv_def calmEnv_def demoWorld_def)
  have l: "Load ?env ((demoWorld ?s)\<lparr>tick := 1\<rparr>) ?path = (Inr demoCfg, (demoWorld ?s)\<lparr>tick := 2\<rparr>)"
    unfolding p
    by (simp add: Load_def os_ReadFile_def step_def demoEnv_def calmEnv_def demoWorld_def
        Validate_demoCfg)
  from C7_unknown_fingerprint [where env = ?env and w = "demoWorld ?s" and cfg = demoCfg
      and fingerprint = "''SHA256:zzz''" and ?w1.0 = "(demoWorld ?s)\<lparr>tick := 1\<rparr>"
      and ?w2.0 = "(demoWorld ?s)\<lparr>tick := 2\<rparr>"]
    u e x l
  show ?thesis
    unfolding t
    by (simp add: prod_eq_iff demoWorld_def)
qed

definition allEnv :: "(Config \<Rightarrow> string) \<Rightarrow> Env" where
  "allEnv serialise = (demoEnv serialise)\<lparr>revokeFingerprint := [], revokeAll := True\<rparr>"

text \<open>
  C1. \<^verbatim>\<open>revoke --all\<close>, confirmed with \<^verbatim>\<open>y\<close>, on a declared model with one active key that
  has no remote id. The key is selected and its revocation succeeds without a call to the
  platform. The model that is then saved is the model that was loaded: the status of the
  key in the file is still \<^verbatim>\<open>active\<close>.
\<close>

theorem C1_revoked_status_is_not_persisted:
  "revocationsOfPersonas [] [] 0 (Personas demoCfg) =
     [\<lparr>kr_Persona = ''work'', kr_Platform = PlatformGitHub, kr_Account = ''bob'',
       kr_BaseURL = [], kr_Key = demoKey, PersonaRef = 0, PlatformRef = (0, 0)\<rparr>] \<and>
   revokeKey (allEnv serialise) w
     \<lparr>kr_Persona = ''work'', kr_Platform = PlatformGitHub, kr_Account = ''bob'',
      kr_BaseURL = [], kr_Key = demoKey, PersonaRef = 0, PlatformRef = (0, 0)\<rparr> = (None, w) \<and>
   runRevoke (allEnv serialise) (demoWorld serialise) =
     (None,
      \<lparr>files = [''/home/dev/.git-keys.yaml'' \<mapsto> serialise demoCfg], tick = 4,
       trace = [Saved ''/home/dev/.git-keys.yaml'' demoCfg]\<rparr>) \<and>
   map (map (map Status \<circ> Keys) \<circ> Platforms) (Personas demoCfg) = [[[KeyStatusActive]]]"
proof -
  have k: "revocationsOfPersonas [] [] 0 (Personas demoCfg) =
     [\<lparr>kr_Persona = ''work'', kr_Platform = PlatformGitHub, kr_Account = ''bob'',
       kr_BaseURL = [], kr_Key = demoKey, PersonaRef = 0, PlatformRef = (0, 0)\<rparr>]"
    by (simp add: demoCfg_def demoKey_def KeyStatusActive_def KeyStatusRevoked_def)
  have r: "revokeKey env w'
     \<lparr>kr_Persona = ''work'', kr_Platform = PlatformGitHub, kr_Account = ''bob'',
      kr_BaseURL = [], kr_Key = demoKey, PersonaRef = 0, PlatformRef = (0, 0)\<rparr> = (None, w')"
    for w' env
    by (simp add: revokeKey_def demoKey_def)
  have run: "runRevoke (allEnv serialise) (demoWorld serialise) =
     (None,
      \<lparr>files = [''/home/dev/.git-keys.yaml'' \<mapsto> serialise demoCfg], tick = 4,
       trace = [Saved ''/home/dev/.git-keys.yaml'' demoCfg]\<rparr>)"
    by (simp add: runRevoke_def Let_def allEnv_def demoEnv_def calmEnv_def demoWorld_def
        Exists_def os_Stat_def step_def Load_def os_ReadFile_def Validate_demoCfg
        config_NewManager_def GetDefaultConfigPath_def filepath_Join_def revokeCollected_def
        k r Save_def os_MkdirAll_def os_WriteFile_def)
  have st: "map (map (map Status \<circ> Keys) \<circ> Platforms) (Personas demoCfg) = [[[KeyStatusActive]]]"
    by (simp add: demoCfg_def demoKey_def)
  from k r run st show ?thesis by simp
qed

subsection \<open>The active key of a platform\<close>











end
